theory Spec2Isabelle
  imports Main "HOL-Library.AList"
begin

section \<open>The credential and settings store (database.py)\<close>

text \<open>
  The store is the SQLite file of \<^verbatim>\<open>Database\<close>: the tables \<^verbatim>\<open>users\<close> and
  \<^verbatim>\<open>user_settings\<close>, both keyed by \<^verbatim>\<open>telegram_id INTEGER PRIMARY KEY\<close>, and the
  Fernet key read from \<^verbatim>\<open>encryption.key\<close>. A table is an association list from the key
  to the remaining columns; a row is updated in place and a new row is appended.

  Fernet belongs to the \<^verbatim>\<open>cryptography\<close> package, not to this repository, so it is a
  parameter of every operation that encrypts or decrypts: \<open>fernet_encrypt\<close> takes the key,
  the randomness it draws (IV and timestamp) and the plaintext; \<open>fernet_decrypt\<close> takes
  the key and the token and answers \<open>None\<close> where the library raises \<^verbatim>\<open>InvalidToken\<close>.

  Failures of SQLite itself (a locked or unreadable file) are outside the model, so the
  \<^verbatim>\<open>except Exception\<close> branch of a method is reached exactly when a decryption raises.
  What the methods write to the log is not modelled.
\<close>

type_synonym telegram_id = int

type_synonym timestamp = int

record fernet =
  fernet_encrypt :: "string \<Rightarrow> nat \<Rightarrow> string \<Rightarrow> string"
  fernet_decrypt :: "string \<Rightarrow> string \<Rightarrow> string option"

text \<open>The columns of \<^verbatim>\<open>users\<close> after the key, in the order of \<^verbatim>\<open>CREATE TABLE\<close>.\<close>

record users_row =
  col_aspen_username :: string
  col_aspen_password :: string
  col_notification_method :: string
  col_email :: "string option"
  col_is_active :: bool
  col_created_at :: timestamp
  col_last_updated :: timestamp

text \<open>The columns of \<^verbatim>\<open>user_settings\<close> after the key.\<close>

record user_settings_row =
  col_timezone :: string
  col_notification_frequency :: string
  col_notification_time :: string

record database =
  encryption_key :: string
  users :: "(telegram_id \<times> users_row) list"
  user_settings :: "(telegram_id \<times> user_settings_row) list"

text \<open>The dictionaries that \<^verbatim>\<open>get_user\<close> and \<^verbatim>\<open>get_user_settings\<close> return.\<close>

record user =
  telegram_id :: telegram_id
  aspen_username :: string
  aspen_password :: string
  notification_method :: string
  is_active :: bool
  created_at :: timestamp
  last_updated :: timestamp

record settings =
  settings_telegram_id :: telegram_id
  timezone :: string
  notification_frequency :: string
  notification_time :: string

definition encrypt :: "fernet \<Rightarrow> database \<Rightarrow> nat \<Rightarrow> string \<Rightarrow> string" where
  "encrypt F db r data_str = fernet_encrypt F (encryption_key db) r data_str"

definition decrypt :: "fernet \<Rightarrow> database \<Rightarrow> string \<Rightarrow> string option" where
  "decrypt F db encrypted_data = fernet_decrypt F (encryption_key db) encrypted_data"

text \<open>
  \<^verbatim>\<open>add_user\<close>: both credentials are encrypted (each call draws its own randomness, \<open>r1\<close>
  and \<open>r2\<close>); an existing row keeps \<^verbatim>\<open>email\<close>, \<^verbatim>\<open>is_active\<close> and \<^verbatim>\<open>created_at\<close>; a new
  row takes the column defaults (\<^verbatim>\<open>email\<close> NULL, \<^verbatim>\<open>is_active\<close> 1). \<open>utcnow\<close> is the
  reading of \<^verbatim>\<open>datetime.utcnow()\<close>.
\<close>

definition add_user ::
  "fernet \<Rightarrow> nat \<Rightarrow> nat \<Rightarrow> timestamp \<Rightarrow> telegram_id \<Rightarrow> string \<Rightarrow> string \<Rightarrow> string \<Rightarrow>
   database \<Rightarrow> bool \<times> database" where
  "add_user F r1 r2 utcnow tid username password method db =
     (let encrypted_username = encrypt F db r1 username;
          encrypted_password = encrypt F db r2 password
      in case map_of (users db) tid of
           Some existing_user \<Rightarrow>
             (True, db\<lparr>users := AList.update tid
                (existing_user\<lparr>col_aspen_username := encrypted_username,
                                col_aspen_password := encrypted_password,
                                col_notification_method := method,
                                col_last_updated := utcnow\<rparr>) (users db)\<rparr>)
         | None \<Rightarrow>
             (True, db\<lparr>users := AList.update tid
                \<lparr>col_aspen_username = encrypted_username,
                 col_aspen_password = encrypted_password,
                 col_notification_method = method,
                 col_email = None,
                 col_is_active = True,
                 col_created_at = utcnow,
                 col_last_updated = utcnow\<rparr> (users db)\<rparr>))"

text \<open>
  Building the dictionary of one row: the two \<^verbatim>\<open>self._decrypt\<close> calls run in the order
  of the dictionary display, and the first that raises ends the construction.
\<close>

definition decrypt_row :: "fernet \<Rightarrow> database \<Rightarrow> telegram_id \<Rightarrow> users_row \<Rightarrow> user option" where
  "decrypt_row F db tid row =
     (case decrypt F db (col_aspen_username row) of
        None \<Rightarrow> None
      | Some username \<Rightarrow>
          (case decrypt F db (col_aspen_password row) of
             None \<Rightarrow> None
           | Some password \<Rightarrow>
               Some \<lparr>telegram_id = tid,
                     aspen_username = username,
                     aspen_password = password,
                     notification_method = col_notification_method row,
                     is_active = col_is_active row,
                     created_at = col_created_at row,
                     last_updated = col_last_updated row\<rparr>))"

text \<open>
  \<^verbatim>\<open>get_user\<close>: \<open>None\<close> when no row has the id, and \<open>None\<close> again from the
  \<^verbatim>\<open>except Exception\<close> branch when a decryption raises.
\<close>

definition get_user :: "fernet \<Rightarrow> database \<Rightarrow> telegram_id \<Rightarrow> user option" where
  "get_user F db tid =
     (case map_of (users db) tid of
        Some row \<Rightarrow> decrypt_row F db tid row
      | None \<Rightarrow> None)"

text \<open>
  \<^verbatim>\<open>get_all_active_users\<close>: SQLite hands the selected rows over in the order of the
  integer primary key; the loop appends one dictionary per row; an exception anywhere in
  the loop discards what was collected and the method returns the empty list.
\<close>

fun decrypt_rows :: "fernet \<Rightarrow> database \<Rightarrow> (telegram_id \<times> users_row) list \<Rightarrow> user list option" where
  "decrypt_rows F db [] = Some []"
| "decrypt_rows F db ((tid, row) # rest) =
     (case decrypt_row F db tid row of
        None \<Rightarrow> None
      | Some u \<Rightarrow>
          (case decrypt_rows F db rest of
             None \<Rightarrow> None
           | Some us \<Rightarrow> Some (u # us)))"

definition get_all_active_users :: "fernet \<Rightarrow> database \<Rightarrow> user list" where
  "get_all_active_users F db =
     (case decrypt_rows F db
             (sort_key fst (filter (\<lambda>(tid, row). col_is_active row) (users db))) of
        Some result \<Rightarrow> result
      | None \<Rightarrow> [])"

definition get_user_settings :: "database \<Rightarrow> telegram_id \<Rightarrow> settings option" where
  "get_user_settings db tid =
     (case map_of (user_settings db) tid of
        Some row \<Rightarrow>
          Some \<lparr>settings_telegram_id = tid,
                timezone = col_timezone row,
                notification_frequency = col_notification_frequency row,
                notification_time = col_notification_time row\<rparr>
      | None \<Rightarrow> None)"

text \<open>
  \<^verbatim>\<open>update_user_notification_time\<close> and \<^verbatim>\<open>update_user_timezone\<close>: read the current
  settings, then \<^verbatim>\<open>INSERT OR REPLACE\<close> the whole row. The connection never turns
  \<^verbatim>\<open>PRAGMA foreign_keys\<close> on, so the \<^verbatim>\<open>FOREIGN KEY\<close> clause of the table is not
  enforced and the \<^verbatim>\<open>users\<close> table is not consulted.
\<close>

definition update_user_notification_time ::
  "telegram_id \<Rightarrow> string \<Rightarrow> database \<Rightarrow> bool \<times> database" where
  "update_user_notification_time tid new_time db =
     (let current_settings = get_user_settings db tid;
          tz = (case current_settings of
                  Some s \<Rightarrow> timezone s
                | None \<Rightarrow> ''America/Chicago'')
      in (True, db\<lparr>user_settings := AList.update tid
            \<lparr>col_timezone = tz,
             col_notification_frequency = ''daily'',
             col_notification_time = new_time\<rparr> (user_settings db)\<rparr>))"

definition update_user_timezone ::
  "telegram_id \<Rightarrow> string \<Rightarrow> database \<Rightarrow> bool \<times> database" where
  "update_user_timezone tid tz db =
     (let current_settings = get_user_settings db tid;
          current_time = (case current_settings of
                            Some s \<Rightarrow> notification_time s
                          | None \<Rightarrow> ''15:00'')
      in (True, db\<lparr>user_settings := AList.update tid
            \<lparr>col_timezone = tz,
             col_notification_frequency = ''daily'',
             col_notification_time = current_time\<rparr> (user_settings db)\<rparr>))"

text \<open>\<^verbatim>\<open>deactivate_user\<close>: the result is \<^verbatim>\<open>cursor.rowcount > 0\<close>.\<close>

definition deactivate_user :: "timestamp \<Rightarrow> telegram_id \<Rightarrow> database \<Rightarrow> bool \<times> database" where
  "deactivate_user utcnow tid db =
     (case map_of (users db) tid of
        Some row \<Rightarrow>
          (True, db\<lparr>users := AList.update tid
             (row\<lparr>col_is_active := False, col_last_updated := utcnow\<rparr>) (users db)\<rparr>)
      | None \<Rightarrow> (False, db))"

section \<open>Time strings (handlers.py, scheduler.py)\<close>

text \<open>
  Python strings are sequences of code points; the model has the code points below 256.
  \<open>in_range lo hi\<close> is the character class \<^verbatim>\<open>[lo-hi]\<close>; \<open>is_space\<close> holds of the
  characters that \<^verbatim>\<open>str.strip()\<close> treats as whitespace.
\<close>

definition in_range :: "char \<Rightarrow> char \<Rightarrow> char \<Rightarrow> bool" where
  "in_range lo hi c = ((of_char lo :: nat) \<le> of_char c \<and> (of_char c :: nat) \<le> of_char hi)"

definition is_space :: "char \<Rightarrow> bool" where
  "is_space c = (in_range (CHR 0x09) (CHR 0x0D) c \<or> in_range (CHR 0x1C) (CHR 0x20) c
                 \<or> c = CHR 0x85 \<or> c = CHR 0xA0)"

definition strip :: "string \<Rightarrow> string" where
  "strip s = rev (dropWhile is_space (rev (dropWhile is_space s)))"

definition is_digit :: "char \<Rightarrow> bool" where
  "is_digit c = in_range CHR ''0'' CHR ''9'' c"

definition digit_val :: "char \<Rightarrow> int" where
  "digit_val c = int (of_char c) - 48"

definition digits_value :: "string \<Rightarrow> int" where
  "digits_value ds = foldl (\<lambda>n c. 10 * n + digit_val c) 0 ds"

text \<open>\<^verbatim>\<open>s.split(sep)\<close> for a one-character separator.\<close>

fun split_on :: "char \<Rightarrow> string \<Rightarrow> string list" where
  "split_on sep [] = [[]]"
| "split_on sep (c # cs) =
     (if c = sep then [] # split_on sep cs
      else (case split_on sep cs of
              p # ps \<Rightarrow> (c # p) # ps
            | [] \<Rightarrow> [[c]]))"

text \<open>
  \<^verbatim>\<open>int(s)\<close> on a string: surrounding whitespace is dropped, one sign is allowed, and
  the digits may be grouped by single underscores; \<open>None\<close> is \<^verbatim>\<open>ValueError\<close>. The
  whitespace \<^verbatim>\<open>int\<close> drops is the ASCII white space (tab to carriage return, and the
  space) and, of the other code points below 256, U+0085 and U+00A0; the separators
  U+001C to U+001F, which \<^verbatim>\<open>str.strip()\<close> drops, make \<^verbatim>\<open>int\<close> raise.
\<close>

definition is_int_space :: "char \<Rightarrow> bool" where
  "is_int_space c = (in_range (CHR 0x09) (CHR 0x0D) c \<or> c = CHR 0x20
                     \<or> c = CHR 0x85 \<or> c = CHR 0xA0)"

definition int_strip :: "string \<Rightarrow> string" where
  "int_strip s = rev (dropWhile is_int_space (rev (dropWhile is_int_space s)))"

fun double_underscore :: "string \<Rightarrow> bool" where
  "double_underscore (a # b # cs) =
     ((a = CHR ''_'' \<and> b = CHR ''_'') \<or> double_underscore (b # cs))"
| "double_underscore _ = False"

definition py_digits :: "string \<Rightarrow> int option" where
  "py_digits ds =
     (if ds \<noteq> [] \<and> list_all (\<lambda>c. is_digit c \<or> c = CHR ''_'') ds
         \<and> is_digit (hd ds) \<and> is_digit (last ds) \<and> \<not> double_underscore ds
      then Some (digits_value (filter is_digit ds))
      else None)"

definition py_int :: "string \<Rightarrow> int option" where
  "py_int s =
     (case int_strip s of
        [] \<Rightarrow> None
      | c # cs \<Rightarrow>
          if c = CHR ''-'' then map_option uminus (py_digits cs)
          else if c = CHR ''+'' then py_digits cs
          else py_digits (c # cs))"

text \<open>
  \<^verbatim>\<open>re.match(r'^([01]?[0-9]|2[0-3]):([0-5][0-9])$', s)\<close>. \<open>match_group1\<close> lists what is
  left of the input after each way the first group can match, in the order the engine
  tries them (\<^verbatim>\<open>[01][0-9]\<close>, then \<^verbatim>\<open>[0-9]\<close> alone, then \<^verbatim>\<open>2[0-3]\<close>); \<open>match_rest\<close> is
  \<^verbatim>\<open>:([0-5][0-9])$\<close>, where \<^verbatim>\<open>$\<close> also matches just before a final newline.
\<close>

definition match_group1 :: "string \<Rightarrow> string list" where
  "match_group1 s =
     (case s of
        a # b # rest \<Rightarrow> if in_range CHR ''0'' CHR ''1'' a \<and> is_digit b then [rest] else []
      | _ \<Rightarrow> [])
     @ (case s of
          a # rest \<Rightarrow> if is_digit a then [rest] else []
        | _ \<Rightarrow> [])
     @ (case s of
          a # b # rest \<Rightarrow> if a = CHR ''2'' \<and> in_range CHR ''0'' CHR ''3'' b then [rest] else []
        | _ \<Rightarrow> [])"

definition match_rest :: "string \<Rightarrow> bool" where
  "match_rest s =
     (case s of
        c # m1 # m2 # rest \<Rightarrow>
          c = CHR '':'' \<and> in_range CHR ''0'' CHR ''5'' m1 \<and> is_digit m2
          \<and> (rest = [] \<or> rest = [CHR 0x0A])
      | _ \<Rightarrow> False)"

definition time_pattern_match :: "string \<Rightarrow> bool" where
  "time_pattern_match s = list_ex match_rest (match_group1 s)"

text \<open>
  \<^verbatim>\<open>hour, minute = map(int, notification_time.split(':'))\<close>: \<^verbatim>\<open>ValueError\<close> unless the
  split has exactly two parts and both convert.
\<close>

definition parse_hour_minute :: "string \<Rightarrow> (int \<times> int) option" where
  "parse_hour_minute time_str =
     (case map py_int (split_on CHR '':'' time_str) of
        [Some hour, Some minute] \<Rightarrow> Some (hour, minute)
      | _ \<Rightarrow> None)"

text \<open>
  Two readings of "a 24-hour time of day". \<open>hhmm_24h\<close> follows the specification's
  words: two hour digits, a colon, two minute digits, from \<^verbatim>\<open>00:00\<close> to \<^verbatim>\<open>23:59\<close>.
  \<open>valid_time_text\<close> also admits a one-digit hour.
\<close>

definition valid_time_text :: "string \<Rightarrow> bool" where
  "valid_time_text s =
     (case split_on CHR '':'' s of
        [hs, ms] \<Rightarrow>
          (length hs = 1 \<or> length hs = 2) \<and> list_all is_digit hs \<and> digits_value hs < 24
          \<and> length ms = 2 \<and> list_all is_digit ms \<and> digits_value ms < 60
      | _ \<Rightarrow> False)"

definition hhmm_24h :: "string \<Rightarrow> bool" where
  "hhmm_24h s =
     (case split_on CHR '':'' s of
        [hs, ms] \<Rightarrow>
          length hs = 2 \<and> list_all is_digit hs \<and> digits_value hs < 24
          \<and> length ms = 2 \<and> list_all is_digit ms \<and> digits_value ms < 60
      | _ \<Rightarrow> False)"

text \<open>The inverse of \<open>split_on\<close>: the parts put together again around the separator.\<close>

fun join :: "char \<Rightarrow> string list \<Rightarrow> string" where
  "join sep [] = []"
| "join sep [p] = p"
| "join sep (p # q # ps) = p @ sep # join sep (q # ps)"

text \<open>
  The hour and the minute a time string names: the decimal values of the digits before
  and after the colon.
\<close>

definition named_hour_minute :: "string \<Rightarrow> int \<times> int" where
  "named_hour_minute s =
     (case split_on CHR '':'' s of
        [hs, ms] \<Rightarrow> (digits_value (filter is_digit hs), digits_value (filter is_digit ms))
      | _ \<Rightarrow> (0, 0))"

section \<open>Clock readings and time zones\<close>

text \<open>
  An instant is a number of microseconds since 1970-01-01T00:00:00 UTC, the resolution
  of \<^verbatim>\<open>datetime\<close>. The zone database belongs to \<^verbatim>\<open>pytz\<close>, so it is a parameter:
  a zone gives the UTC offset in force at an instant, in whole minutes (\<^verbatim>\<open>pytz\<close> rounds
  every offset to the minute), and \<^verbatim>\<open>pytz.timezone(name)\<close> is a lookup that answers
  \<open>None\<close> where the library raises \<^verbatim>\<open>UnknownTimeZoneError\<close>.

  An aware \<^verbatim>\<open>datetime\<close> made by \<^verbatim>\<open>datetime.now(tz)\<close> carries the fixed-offset
  \<^verbatim>\<open>tzinfo\<close> in force at that instant, and \<^verbatim>\<open>replace\<close> and \<^verbatim>\<open>+ timedelta\<close> keep it:
  the record holds the wall-clock reading, as microseconds since 1970-01-01T00:00:00 on
  that clock, and the offset.
\<close>

type_synonym instant = int

type_synonym zone = "instant \<Rightarrow> int"

type_synonym tzdb = "string \<Rightarrow> zone option"

definition usec_per_day :: int where
  "usec_per_day = 86400 * 1000000"

record datetime =
  wall :: int
  utcoffset :: int

definition datetime_now :: "zone \<Rightarrow> instant \<Rightarrow> datetime" where
  "datetime_now tz t = \<lparr>wall = t + tz t * 60000000, utcoffset = tz t\<rparr>"

text \<open>
  \<^verbatim>\<open>dt.replace(hour=h, minute=m, second=s, microsecond=0)\<close>: the date is kept;
  \<open>None\<close> is the \<^verbatim>\<open>ValueError\<close> for a field out of range.
\<close>

definition replace_time :: "datetime \<Rightarrow> int \<Rightarrow> int \<Rightarrow> int \<Rightarrow> datetime option" where
  "replace_time dt h m s =
     (if 0 \<le> h \<and> h < 24 \<and> 0 \<le> m \<and> m < 60 \<and> 0 \<le> s \<and> s < 60
      then Some (dt\<lparr>wall := (wall dt div usec_per_day) * usec_per_day
                              + ((h * 60 + m) * 60 + s) * 1000000\<rparr>)
      else None)"

definition plus_days :: "datetime \<Rightarrow> int \<Rightarrow> datetime" where
  "plus_days dt n = dt\<lparr>wall := wall dt + n * usec_per_day\<rparr>"

definition astimezone_utc :: "datetime \<Rightarrow> instant" where
  "astimezone_utc dt = wall dt - utcoffset dt * 60000000"

text \<open>The date of a wall-clock reading, as a day number, and its \<^verbatim>\<open>weekday()\<close>
  (Monday is 0; 1970-01-01 was a Thursday).\<close>

definition date_of :: "int \<Rightarrow> int" where
  "date_of w = w div usec_per_day"

definition weekday :: "int \<Rightarrow> int" where
  "weekday w = (date_of w + 3) mod 7"

text \<open>The wall-clock reading of \<open>h:m:s\<close> on the day with number \<open>day\<close>.\<close>

definition wall_reading :: "int \<Rightarrow> int \<Rightarrow> int \<Rightarrow> int \<Rightarrow> int" where
  "wall_reading day h m s = day * usec_per_day + ((h * 60 + m) * 60 + s) * 1000000"

text \<open>The naive \<^verbatim>\<open>datetime.now()\<close>: the wall clock of the zone the process runs in.\<close>

definition naive_now :: "zone \<Rightarrow> instant \<Rightarrow> int" where
  "naive_now local_zone t = t + local_zone t * 60000000"

record time_of_day =
  hour :: int
  minute :: int
  second :: int

text \<open>\<^verbatim>\<open>time(hour=d.hour, minute=d.minute, second=d.second)\<close> of a UTC datetime.\<close>

definition utc_time_of :: "instant \<Rightarrow> time_of_day" where
  "utc_time_of t =
     \<lparr>hour = (t div 3600000000) mod 24,
      minute = (t div 60000000) mod 60,
      second = (t div 1000000) mod 60\<rparr>"

text \<open>
  \<^verbatim>\<open>random.randint(a, b)\<close> as a function of the entropy it consumes: every value from
  \<open>a\<close> to \<open>b\<close> is reached and no other.
\<close>

definition randint :: "int \<Rightarrow> int \<Rightarrow> nat \<Rightarrow> int" where
  "randint a b entropy = a + int (entropy mod nat (b - a + 1))"

section \<open>The job queue\<close>

text \<open>
  The job queue belongs to \<^verbatim>\<open>python-telegram-bot\<close>; the model keeps what the repository
  passes to it and reads from it. A job registered by \<^verbatim>\<open>run_daily\<close> holds its name, the
  UTC time of day it repeats at, the \<^verbatim>\<open>next_run_time\<close> it was given and the \<^verbatim>\<open>data\<close>
  dictionary. \<^verbatim>\<open>get_jobs_by_name\<close> selects by name and \<^verbatim>\<open>schedule_removal\<close> takes one
  job out of the queue.
\<close>

record job =
  job_name :: string
  job_time :: time_of_day
  next_run_time :: instant
  job_data :: user

definition get_jobs_by_name :: "string \<Rightarrow> job list \<Rightarrow> job list" where
  "get_jobs_by_name name q = filter (\<lambda>j. job_name j = name) q"

definition schedule_removal :: "job \<Rightarrow> job list \<Rightarrow> job list" where
  "schedule_removal j q = remove1 j q"

definition run_daily :: "time_of_day \<Rightarrow> string \<Rightarrow> user \<Rightarrow> instant \<Rightarrow> job list \<Rightarrow> job list" where
  "run_daily t name data_dict next_run q =
     q @ [\<lparr>job_name = name, job_time = t, next_run_time = next_run, job_data = data_dict\<rparr>]"

text \<open>\<^verbatim>\<open>f"grade_check_user_{telegram_id}"\<close>.\<close>

fun str_nat :: "nat \<Rightarrow> string" where
  "str_nat n =
     (if n < 10 then [char_of (48 + n)]
      else str_nat (n div 10) @ [char_of (48 + n mod 10)])"

declare str_nat.simps [simp del]

definition str_int :: "int \<Rightarrow> string" where
  "str_int i = (if i < 0 then CHR ''-'' # str_nat (nat (- i)) else str_nat (nat i))"

definition job_name_of :: "telegram_id \<Rightarrow> string" where
  "job_name_of tid = ''grade_check_user_'' @ str_int tid"

section \<open>Scheduling (scheduler.py, handlers.py)\<close>

text \<open>
  The next run, as \<^verbatim>\<open>setup_scheduler\<close> computes it for one user (scheduler.py, lines
  133 to 154): parse the time, draw the offset, read the clock in the user's zone, put
  the time of day on today's date, and move to tomorrow when that is not after now.
  Both datetimes carry the same \<^verbatim>\<open>tzinfo\<close>, so \<^verbatim>\<open><=\<close> compares the wall-clock readings.
\<close>

definition setup_scheduled_datetime :: "zone \<Rightarrow> string \<Rightarrow> nat \<Rightarrow> instant \<Rightarrow> datetime option" where
  "setup_scheduled_datetime user_tz time_str entropy t =
     (case parse_hour_minute time_str of
        None \<Rightarrow> None
      | Some (h, m) \<Rightarrow>
          (let random_offset_seconds = randint 0 30 entropy;
               now = datetime_now user_tz t
           in case replace_time now h m random_offset_seconds of
                None \<Rightarrow> None
              | Some scheduled_datetime \<Rightarrow>
                  Some (if wall scheduled_datetime \<le> wall now
                        then plus_days scheduled_datetime 1
                        else scheduled_datetime)))"

text \<open>The same lines of \<^verbatim>\<open>reschedule_user_job\<close> (handlers.py, lines 504 to 523).\<close>

definition reschedule_scheduled_datetime :: "zone \<Rightarrow> string \<Rightarrow> nat \<Rightarrow> instant \<Rightarrow> datetime option" where
  "reschedule_scheduled_datetime tz time_str entropy t =
     (case parse_hour_minute time_str of
        None \<Rightarrow> None
      | Some (h, m) \<Rightarrow>
          (let random_offset_seconds = randint 0 30 entropy;
               now = datetime_now tz t
           in case replace_time now h m random_offset_seconds of
                None \<Rightarrow> None
              | Some scheduled_datetime \<Rightarrow>
                  Some (if wall scheduled_datetime \<le> wall now
                        then plus_days scheduled_datetime 1
                        else scheduled_datetime)))"

text \<open>
  One iteration of the loop of \<^verbatim>\<open>setup_scheduler\<close>. Any exception (unknown zone,
  unparsable or out-of-range time) is caught by the loop's \<^verbatim>\<open>except\<close>, which goes on to
  the next user with the queue as it was.
\<close>

definition setup_user_job :: "tzdb \<Rightarrow> database \<Rightarrow> nat \<Rightarrow> instant \<Rightarrow> user \<Rightarrow> job list \<Rightarrow> job list" where
  "setup_user_job zones db entropy t usr q =
     (let current = get_user_settings db (telegram_id usr);
          time_str = (case current of Some s \<Rightarrow> notification_time s | None \<Rightarrow> ''15:00'');
          user_timezone = (case current of Some s \<Rightarrow> timezone s | None \<Rightarrow> ''America/Chicago'')
      in case zones user_timezone of
           None \<Rightarrow> q
         | Some user_tz \<Rightarrow>
             (case setup_scheduled_datetime user_tz time_str entropy t of
                None \<Rightarrow> q
              | Some scheduled_datetime \<Rightarrow>
                  (let scheduled_utc = astimezone_utc scheduled_datetime;
                       job_time_utc = utc_time_of scheduled_utc
                   in run_daily job_time_utc (job_name_of (telegram_id usr)) usr scheduled_utc q)))"

text \<open>
  \<^verbatim>\<open>setup_scheduler\<close>: the queue is cleared, then every active user gets one iteration;
  \<open>draws i\<close> is the entropy and the clock reading of iteration \<open>i\<close>. The lookup of
  \<^verbatim>\<open>config.TIMEZONE\<close> (a name from \<^verbatim>\<open>config\<close>, taken as a parameter) stands outside
  every \<^verbatim>\<open>try\<close>, so an unknown name there ends the function with the exception
  (\<open>None\<close>), the queue having been cleared by then.
\<close>

fun schedule_users ::
  "tzdb \<Rightarrow> database \<Rightarrow> (nat \<Rightarrow> nat \<times> instant) \<Rightarrow> nat \<Rightarrow> user list \<Rightarrow> job list \<Rightarrow> job list" where
  "schedule_users zones db draws i [] q = q"
| "schedule_users zones db draws i (usr # rest) q =
     schedule_users zones db draws (Suc i) rest
       (setup_user_job zones db (fst (draws i)) (snd (draws i)) usr q)"

definition setup_scheduler ::
  "fernet \<Rightarrow> tzdb \<Rightarrow> string \<Rightarrow> database \<Rightarrow> (nat \<Rightarrow> nat \<times> instant) \<Rightarrow> job list \<Rightarrow> job list option" where
  "setup_scheduler F zones config_TIMEZONE db draws q =
     (case zones config_TIMEZONE of
        None \<Rightarrow> None
      | Some tz \<Rightarrow> Some (schedule_users zones db draws 0 (get_all_active_users F db) []))"

text \<open>
  \<^verbatim>\<open>reschedule_user_job\<close>: everything runs inside one \<^verbatim>\<open>try\<close>, and every exception is
  raised before the queue is touched, so a failure leaves the queue as it was. The loop
  over \<^verbatim>\<open>current_jobs\<close> removes each job it was handed.
\<close>

definition reschedule_user_job ::
  "fernet \<Rightarrow> tzdb \<Rightarrow> database \<Rightarrow> nat \<Rightarrow> instant \<Rightarrow> telegram_id \<Rightarrow> string \<Rightarrow> job list \<Rightarrow> job list" where
  "reschedule_user_job F zones db entropy t tid time_str q =
     (case get_user F db tid of
        None \<Rightarrow> q
      | Some usr \<Rightarrow>
          (let current = get_user_settings db tid;
               user_timezone = (case current of Some s \<Rightarrow> timezone s | None \<Rightarrow> ''America/Chicago'')
           in case zones user_timezone of
                None \<Rightarrow> q
              | Some tz \<Rightarrow>
                  (case reschedule_scheduled_datetime tz time_str entropy t of
                     None \<Rightarrow> q
                   | Some scheduled_datetime \<Rightarrow>
                       (let scheduled_utc = astimezone_utc scheduled_datetime;
                            job_time_utc = utc_time_of scheduled_utc;
                            name = job_name_of tid;
                            current_jobs = get_jobs_by_name name q;
                            q' = fold schedule_removal current_jobs q
                        in run_daily job_time_utc name usr scheduled_utc q'))))"

text \<open>
  The two handlers that take a time from the user. Both strip the text and test the
  pattern before anything else; only \<^verbatim>\<open>set_notification_time\<close> reschedules. The result
  is the next conversation state, the store and the queue; replies to the chat are not
  modelled.
\<close>

datatype conversation_state = SET_NOTIFICATION_TIME | SETUP_NOTIFICATION_TIME | ConversationHandler_END

definition set_notification_time ::
  "fernet \<Rightarrow> tzdb \<Rightarrow> nat \<Rightarrow> instant \<Rightarrow> telegram_id \<Rightarrow> string \<Rightarrow> database \<Rightarrow> job list \<Rightarrow>
   conversation_state \<times> database \<times> job list" where
  "set_notification_time F zones entropy t uid message_text db q =
     (let time_input = strip message_text
      in if \<not> time_pattern_match time_input then (SET_NOTIFICATION_TIME, db, q)
         else (case update_user_notification_time uid time_input db of
                 (success, db') \<Rightarrow>
                   if success
                   then (ConversationHandler_END, db',
                         reschedule_user_job F zones db' entropy t uid time_input q)
                   else (ConversationHandler_END, db', q)))"

definition setup_notification_time_input ::
  "telegram_id \<Rightarrow> string \<Rightarrow> database \<Rightarrow> conversation_state \<times> database" where
  "setup_notification_time_input uid message_text db =
     (let time_input = strip message_text
      in if \<not> time_pattern_match time_input then (SETUP_NOTIFICATION_TIME, db)
         else (case update_user_notification_time uid time_input db of
                 (success, db') \<Rightarrow> (ConversationHandler_END, db')))"


section \<open>A firing (scheduler.py)\<close>

text \<open>
  \<^verbatim>\<open>fetch_and_notify_user\<close>, the callback of every job. Its inputs beyond the store and
  the job: the zone the process runs in (for the naive \<^verbatim>\<open>datetime.now()\<close>), the clock
  at entry and after the random sleep, the job's \<^verbatim>\<open>scheduled_time\<close> attribute when it
  has one, the scraper (\<open>None\<close> when it raises; the title it receives is a rendering of
  \<open>user_local_time\<close>) and whether Telegram accepts a text. The result is the list of
  messages that reached the chat. The callback never uses \<^verbatim>\<open>context.job_queue\<close>.
\<close>

datatype message_text = Grades string | Delay_notice int

definition deliverable_prefix ::
  "(message_text \<Rightarrow> bool) \<Rightarrow> telegram_id \<Rightarrow> message_text list \<Rightarrow> (telegram_id \<times> message_text) list" where
  "deliverable_prefix accepts chat_id texts = map (Pair chat_id) (takeWhile accepts texts)"

definition fetch_and_notify_user ::
  "fernet \<Rightarrow> tzdb \<Rightarrow> zone \<Rightarrow> (string \<Rightarrow> string \<Rightarrow> datetime \<Rightarrow> string list option) \<Rightarrow>
   (message_text \<Rightarrow> bool) \<Rightarrow> database \<Rightarrow> instant \<Rightarrow> instant \<Rightarrow> int option \<Rightarrow> job \<Rightarrow>
   (telegram_id \<times> message_text) list" where
  "fetch_and_notify_user F zones local_zone fetch_formatted_grades accepts db t_entry t_fetch
       job_scheduled_time j =
     (let user_id = telegram_id (job_data j)
      in case get_user F db user_id of
           None \<Rightarrow> []
         | Some fresh_user \<Rightarrow>
             if weekday (naive_now local_zone t_entry) \<ge> 5 then []
             else
               (let current_time = naive_now local_zone t_fetch;
                    scheduled_time = (case job_scheduled_time of Some s \<Rightarrow> s | None \<Rightarrow> current_time);
                    delay_minutes = (if current_time > scheduled_time
                                     then (current_time - scheduled_time) div 60000000 else 0);
                    current = get_user_settings db user_id;
                    user_timezone = (case current of Some s \<Rightarrow> timezone s
                                     | None \<Rightarrow> ''America/Chicago'')
                in case zones user_timezone of
                     None \<Rightarrow> []
                   | Some user_tz \<Rightarrow>
                       (let user_local_time = datetime_now user_tz t_fetch
                        in case fetch_formatted_grades (aspen_username fresh_user)
                                  (aspen_password fresh_user) user_local_time of
                             None \<Rightarrow> []
                           | Some messages \<Rightarrow>
                               deliverable_prefix accepts user_id
                                 (map Grades messages
                                  @ (if delay_minutes > 0 then [Delay_notice delay_minutes] else [])))))"

text \<open>
  What the queue holds after a job of \<^verbatim>\<open>run_daily\<close> has fired: the library moves
  \<^verbatim>\<open>next_run_time\<close> to the next occurrence of the time of day the job was registered
  with. The rule it uses is the library's, so it is the parameter \<open>trigger\<close>; the store
  is not among its arguments.
\<close>

definition job_fired ::
  "(time_of_day \<Rightarrow> instant \<Rightarrow> instant) \<Rightarrow> instant \<Rightarrow> job \<Rightarrow> job list \<Rightarrow> job list" where
  "job_fired trigger t j q =
     map (\<lambda>k. if k = j then k\<lparr>next_run_time := trigger (job_time k) t\<rparr> else k) q"

section \<open>Inputs for running the model\<close>

text \<open>
  A stand-in for Fernet on which the model can be run: the token is the key followed by
  the plaintext, and a token that does not start with the key is refused.
\<close>

definition tag_fernet :: fernet where
  "tag_fernet =
     \<lparr>fernet_encrypt = (\<lambda>k r s. k @ s),
      fernet_decrypt = (\<lambda>k c. if take (length k) c = k then Some (drop (length k) c) else None)\<rparr>"

definition empty_db :: database where
  "empty_db = \<lparr>encryption_key = ''K1'', users = [], user_settings = []\<rparr>"

text \<open>
  The store after account 42 was added, read back after the key file was replaced:
  every token in it was written under \<^verbatim>\<open>K1\<close> and the key now in use is \<^verbatim>\<open>K2\<close>.
\<close>

definition wrong_key_db :: database where
  "wrong_key_db =
     (snd (add_user tag_fernet 1 2 1000 42 ''alice'' ''s3cret pw'' ''telegram'' empty_db))
       \<lparr>encryption_key := ''K2''\<rparr>"

text \<open>
  The offsets of two zones as they stood in 2024 (Chicago with its daylight-saving
  period, Honolulu without one), the process clock on UTC, and the lookup over the zone
  names. The instants used below:
  \<^item> 1709323800000000 is 2024-03-01T20:10:00Z, a Friday, 14:10 in Chicago;
  \<^item> 1709328600000000 is 2024-03-01T21:30:00Z, 15:30 in Chicago;
  \<^item> 1709326807000000 is 2024-03-01T21:00:07Z, 15:00:07 in Chicago;
  \<^item> 1709413207000000 is 2024-03-02T21:00:07Z, a Saturday;
  \<^item> 1709514007000000 is 2024-03-04T01:00:07Z, a Monday on the UTC clock and
    Sunday 19:00:07 in Chicago.
\<close>

definition utc_zone :: zone where
  "utc_zone t = 0"

definition america_chicago :: zone where
  "america_chicago t = (if 1710057600000000 \<le> t \<and> t < 1730617200000000 then - 300 else - 360)"

definition pacific_honolulu :: zone where
  "pacific_honolulu t = - 600"

definition zones_2024 :: tzdb where
  "zones_2024 name =
     (if name = ''America/Chicago'' then Some america_chicago
      else if name = ''Pacific/Honolulu'' then Some pacific_honolulu
      else None)"

text \<open>
  The store left by a registration: account 42, then the two settings updates of
  \<^verbatim>\<open>start_setup_flow\<close>; and the dictionary \<^verbatim>\<open>get_user\<close> returns for it.
\<close>

definition alice :: user where
  "alice = \<lparr>telegram_id = 42, aspen_username = ''alice'', aspen_password = ''s3cret pw'',
            notification_method = ''telegram'', is_active = True,
            created_at = 1000, last_updated = 1000\<rparr>"

definition registered_db :: database where
  "registered_db =
     snd (update_user_notification_time 42 ''15:00''
       (snd (update_user_timezone 42 ''America/Chicago''
         (snd (add_user tag_fernet 1 2 1000 42 ''alice'' ''s3cret pw'' ''telegram'' empty_db)))))"

text \<open>
  A daily rule for the library's trigger: the first instant after \<open>t\<close> at which the UTC
  clock shows the time of day. A scraper that knows one account.
\<close>

definition daily_trigger :: "time_of_day \<Rightarrow> instant \<Rightarrow> instant" where
  "daily_trigger tod t =
     (let today = (t div usec_per_day) * usec_per_day
                  + ((hour tod * 60 + minute tod) * 60 + second tod) * 1000000
      in if t < today then today else today + usec_per_day)"

definition grades_stub :: "string \<Rightarrow> string \<Rightarrow> datetime \<Rightarrow> string list option" where
  "grades_stub username password user_local_time =
     (if username = ''alice'' \<and> password = ''s3cret pw'' then Some [''Math: A''] else None)"

text \<open>
  The job that \<^verbatim>\<open>setup_scheduler\<close> registers for account 42 at 2024-03-01T20:10:00Z
  (15:00 in Chicago is 21:00 UTC), the job of a user notified at 19:00, and the store
  after a timezone change, after a change of the time to \<^verbatim>\<open>19:00\<close>, and after
  \<^verbatim>\<open>deactivate_user\<close>.
\<close>

definition alice_job :: job where
  "alice_job =
     \<lparr>job_name = job_name_of 42, job_time = \<lparr>hour = 21, minute = 0, second = 7\<rparr>,
      next_run_time = 1709326807000000, job_data = alice\<rparr>"


definition evening_db :: database where
  "evening_db = snd (update_user_notification_time 42 ''19:00'' registered_db)"

definition deactivated_db :: database where
  "deactivated_db = snd (deactivate_user 2000 42 registered_db)"

definition evening_job :: job where
  "evening_job =
     \<lparr>job_name = job_name_of 42, job_time = \<lparr>hour = 1, minute = 0, second = 7\<rparr>,
      next_run_time = 1709514007000000, job_data = alice\<rparr>"

text \<open>The store of account 42 read back after the key file was replaced.\<close>

definition rekeyed_db :: database where
  "rekeyed_db = registered_db\<lparr>encryption_key := ''K2''\<rparr>"

section \<open>Properties of the store\<close>

subsection \<open>Settings updates\<close>

lemma get_user_settings_update:
  "get_user_settings (db\<lparr>user_settings := AList.update tid row (user_settings db)\<rparr>) tid =
     Some \<lparr>settings_telegram_id = tid,
           timezone = col_timezone row,
           notification_frequency = col_notification_frequency row,
           notification_time = col_notification_time row\<rparr>"
  by (simp add: get_user_settings_def update_conv')

text \<open>
  C8. \<^verbatim>\<open>update_user_notification_time\<close> stores the new time and leaves the timezone as
  it was read (\<^verbatim>\<open>America/Chicago\<close> when the user had no settings row);
  \<^verbatim>\<open>update_user_timezone\<close> stores the new timezone and leaves the notification time as
  it was read (\<^verbatim>\<open>15:00\<close> when the user had no settings row). The frequency is written
  as \<^verbatim>\<open>daily\<close>, the only value the store ever writes; the settings of every other
  user, the \<^verbatim>\<open>users\<close> table and the key are untouched; both calls return \<^verbatim>\<open>True\<close>.
\<close>

theorem settings_update_preserves_other_field:
  "get_user_settings (snd (update_user_notification_time tid t db)) tid' =
     (if tid' = tid
      then Some \<lparr>settings_telegram_id = tid,
                 timezone = (case get_user_settings db tid of
                               Some s \<Rightarrow> timezone s
                             | None \<Rightarrow> ''America/Chicago''),
                 notification_frequency = ''daily'',
                 notification_time = t\<rparr>
      else get_user_settings db tid')
   \<and> get_user_settings (snd (update_user_timezone tid tz db)) tid' =
     (if tid' = tid
      then Some \<lparr>settings_telegram_id = tid,
                 timezone = tz,
                 notification_frequency = ''daily'',
                 notification_time = (case get_user_settings db tid of
                                        Some s \<Rightarrow> notification_time s
                                      | None \<Rightarrow> ''15:00'')\<rparr>
      else get_user_settings db tid')
   \<and> users (snd (update_user_notification_time tid t db)) = users db
   \<and> users (snd (update_user_timezone tid tz db)) = users db
   \<and> encryption_key (snd (update_user_notification_time tid t db)) = encryption_key db
   \<and> encryption_key (snd (update_user_timezone tid tz db)) = encryption_key db
   \<and> fst (update_user_notification_time tid t db)
   \<and> fst (update_user_timezone tid tz db)"
  by (simp add: update_user_notification_time_def update_user_timezone_def
      get_user_settings_def update_conv' Let_def)

text \<open>
  C10. Neither update looks at the \<^verbatim>\<open>users\<close> table: for an id with no account, both
  return \<^verbatim>\<open>True\<close> and leave a settings row for that id, so a settings row may
  reference no account.
\<close>

theorem settings_update_without_account:
  assumes "map_of (users db) tid = None"
  shows "fst (update_user_notification_time tid t db)
       \<and> get_user_settings (snd (update_user_notification_time tid t db)) tid \<noteq> None
       \<and> map_of (users (snd (update_user_notification_time tid t db))) tid = None
       \<and> fst (update_user_timezone tid tz db)
       \<and> get_user_settings (snd (update_user_timezone tid tz db)) tid \<noteq> None
       \<and> map_of (users (snd (update_user_timezone tid tz db))) tid = None"
  using assms
  by (simp add: update_user_notification_time_def update_user_timezone_def
      get_user_settings_def update_conv' Let_def)

theorem settings_update_without_account_witness:
  "map_of (users empty_db) 42 = None
   \<and> fst (update_user_notification_time 42 ''08:30'' empty_db)
   \<and> get_user_settings (snd (update_user_notification_time 42 ''08:30'' empty_db)) 42 =
       Some \<lparr>settings_telegram_id = 42, timezone = ''America/Chicago'',
             notification_frequency = ''daily'', notification_time = ''08:30''\<rparr>
   \<and> fst (update_user_timezone 42 ''America/Denver'' empty_db)
   \<and> get_user_settings (snd (update_user_timezone 42 ''America/Denver'' empty_db)) 42 =
       Some \<lparr>settings_telegram_id = 42, timezone = ''America/Denver'',
             notification_frequency = ''daily'', notification_time = ''15:00''\<rparr>"
proof -
  have none: "map_of (users empty_db) 42 = None"
    by (simp add: empty_db_def)
  from settings_update_without_account [OF none, of "''08:30''" "''America/Denver''"]
  show ?thesis
    using none
    by (simp add: update_user_notification_time_def update_user_timezone_def
        get_user_settings_def empty_db_def Let_def)
qed

subsection \<open>Credentials\<close>

text \<open>
  C6. When the Fernet library decrypts what it encrypted under the store's key,
  \<^verbatim>\<open>add_user\<close> followed by \<^verbatim>\<open>get_user\<close> returns a dictionary holding exactly the
  username and the password that were passed in (and the method), for every string.
\<close>

theorem add_user_get_user_roundtrip:
  assumes "\<And>r s. fernet_decrypt F (encryption_key db) (fernet_encrypt F (encryption_key db) r s) = Some s"
  shows "fst (add_user F r1 r2 utcnow tid username password method db)
       \<and> map_option aspen_username
           (get_user F (snd (add_user F r1 r2 utcnow tid username password method db)) tid) =
           Some username
       \<and> map_option aspen_password
           (get_user F (snd (add_user F r1 r2 utcnow tid username password method db)) tid) =
           Some password
       \<and> map_option notification_method
           (get_user F (snd (add_user F r1 r2 utcnow tid username password method db)) tid) =
           Some method"
  using assms
  by (cases "map_of (users db) tid")
     (simp_all add: add_user_def get_user_def decrypt_row_def encrypt_def decrypt_def
        update_conv' Let_def)

theorem add_user_get_user_roundtrip_witness:
  "get_user tag_fernet (snd (add_user tag_fernet 1 2 1000 42 ''alice'' ''s3cret pw'' ''telegram'' empty_db)) 42 =
     Some \<lparr>telegram_id = 42, aspen_username = ''alice'', aspen_password = ''s3cret pw'',
           notification_method = ''telegram'', is_active = True,
           created_at = 1000, last_updated = 1000\<rparr>
   \<and> col_aspen_username
       (the (map_of (users (snd (add_user tag_fernet 1 2 1000 42 ''alice'' ''s3cret pw'' ''telegram'' empty_db))) 42)) =
       ''K1alice''"
proof -
  have ok: "\<And>r s. fernet_decrypt tag_fernet (encryption_key empty_db)
                  (fernet_encrypt tag_fernet (encryption_key empty_db) r s) = Some s"
    by (simp add: tag_fernet_def)
  from add_user_get_user_roundtrip [OF ok, of 1 2 1000 42 "''alice''" "''s3cret pw''" "''telegram''"]
  show ?thesis
    by (simp add: add_user_def get_user_def decrypt_row_def encrypt_def decrypt_def
        tag_fernet_def empty_db_def Let_def)
qed

subsection \<open>Decryption failures\<close>

lemma decrypt_rows_failure:
  "(tid, row) \<in> set rows \<Longrightarrow> decrypt_row F db tid row = None \<Longrightarrow> decrypt_rows F db rows = None"
proof (induction rows)
  case Nil
  then show ?case by simp
next
  case (Cons r rows)
  obtain t' row' where r: "r = (t', row')" by (cases r)
  show ?case
  proof (cases "(tid, row) = r")
    case True
    with Cons.prems r show ?thesis by simp
  next
    case False
    with Cons.prems have "(tid, row) \<in> set rows" by simp
    with Cons.IH Cons.prems have "decrypt_rows F db rows = None" by simp
    with r show ?thesis by (simp split: option.splits)
  qed
qed

text \<open>
  C2, as the code has it. A stored account whose ciphertext fails to decrypt makes
  \<^verbatim>\<open>get_user\<close> return \<^verbatim>\<open>None\<close>, the value it returns for an id with no row; and when
  that account is active, \<^verbatim>\<open>get_all_active_users\<close> returns the empty list, the value
  it returns for a store with no active account. The failure is caught inside the
  method and reaches the caller through neither result.
\<close>

theorem decrypt_failure_reads_as_absent:
  assumes "map_of (users db) tid = Some row"
      and "decrypt_row F db tid row = None"
  shows "get_user F db tid = None
       \<and> get_user F (db\<lparr>users := []\<rparr>) tid = None
       \<and> (if col_is_active row then get_all_active_users F db = [] else True)
       \<and> get_all_active_users F (db\<lparr>users := []\<rparr>) = []"
proof -
  have mem: "(tid, row) \<in> set (users db)"
    using assms(1) by (rule map_of_SomeD)
  have "get_all_active_users F db = []" if act: "col_is_active row"
  proof -
    from mem act have
      "(tid, row) \<in> set (sort_key fst (filter (\<lambda>(tid, row). col_is_active row) (users db)))"
      by simp
    then have "decrypt_rows F db
        (sort_key fst (filter (\<lambda>(tid, row). col_is_active row) (users db))) = None"
      using assms(2) by (rule decrypt_rows_failure)
    then show ?thesis by (simp add: get_all_active_users_def)
  qed
  then show ?thesis
    using assms by (simp add: get_user_def get_all_active_users_def)
qed

theorem decrypt_failure_reads_as_absent_witness:
  "map_of (users wrong_key_db) 42 =
     Some \<lparr>col_aspen_username = ''K1alice'', col_aspen_password = ''K1s3cret pw'',
           col_notification_method = ''telegram'', col_email = None, col_is_active = True,
           col_created_at = 1000, col_last_updated = 1000\<rparr>
   \<and> get_user tag_fernet wrong_key_db 42 = None
   \<and> get_all_active_users tag_fernet wrong_key_db = []"
proof -
  let ?row = "\<lparr>col_aspen_username = ''K1alice'', col_aspen_password = ''K1s3cret pw'',
           col_notification_method = ''telegram'', col_email = None, col_is_active = True,
           col_created_at = 1000, col_last_updated = 1000\<rparr>"
  have row: "map_of (users wrong_key_db) 42 = Some ?row"
    by (simp add: wrong_key_db_def add_user_def encrypt_def tag_fernet_def empty_db_def Let_def)
  have bad: "decrypt_row tag_fernet wrong_key_db 42 ?row = None"
    by (simp add: decrypt_row_def decrypt_def wrong_key_db_def tag_fernet_def)
  from decrypt_failure_reads_as_absent [OF row bad] row
  show ?thesis by simp
qed

text \<open>
  C2, as the specification states it, fails: under the wrong key the caller of
  \<^verbatim>\<open>get_user\<close> receives for the stored account 42 what it receives for the empty store,
  and so does the caller of \<^verbatim>\<open>get_all_active_users\<close>.
\<close>

theorem decrypt_failure_swallowed_counterexample:
  "map_of (users wrong_key_db) 42 \<noteq> None
   \<and> decrypt tag_fernet wrong_key_db ''K1alice'' = None
   \<and> get_user tag_fernet wrong_key_db 42 = get_user tag_fernet empty_db 42
   \<and> get_all_active_users tag_fernet wrong_key_db = get_all_active_users tag_fernet empty_db"
  by (simp add: wrong_key_db_def add_user_def get_user_def get_all_active_users_def
      decrypt_row_def encrypt_def decrypt_def tag_fernet_def empty_db_def Let_def)

section \<open>Properties of the time strings\<close>

lemma digit_facts:
  "is_digit c \<Longrightarrow> \<not> is_space c \<and> c \<noteq> CHR ''-'' \<and> c \<noteq> CHR ''+'' \<and> c \<noteq> CHR ''_'' \<and> c \<noteq> CHR '':''
     \<and> 0 \<le> digit_val c \<and> digit_val c \<le> 9 \<and> \<not> is_int_space c"
  by (auto simp: is_digit_def is_space_def is_int_space_def digit_val_def in_range_def)

lemma range_digit:
  "in_range CHR ''0'' CHR ''1'' c \<Longrightarrow> is_digit c \<and> digit_val c \<le> 1"
  "in_range CHR ''0'' CHR ''3'' c \<Longrightarrow> is_digit c \<and> digit_val c \<le> 3"
  "in_range CHR ''0'' CHR ''5'' c \<Longrightarrow> is_digit c \<and> digit_val c \<le> 5"
  "is_digit CHR ''2''" "digit_val CHR ''2'' = 2"
  by (auto simp: is_digit_def digit_val_def in_range_def)

lemma newline_facts: "is_space (CHR 0x0A)" "CHR 0x0A \<noteq> CHR '':''" "is_int_space (CHR 0x0A)"
  "\<not> is_digit (CHR 0x0A)"
  by (simp_all add: is_space_def is_int_space_def is_digit_def in_range_def)

lemma py_int_1: "is_digit a \<Longrightarrow> py_int [a] = Some (digit_val a)"
  using digit_facts [of a] by (simp add: py_int_def int_strip_def py_digits_def digits_value_def)

lemma py_int_2:
  "is_digit a \<Longrightarrow> is_digit b \<Longrightarrow> py_int [a, b] = Some (10 * digit_val a + digit_val b)"
  using digit_facts [of a] digit_facts [of b]
  by (simp add: py_int_def int_strip_def py_digits_def digits_value_def)

lemma py_int_2nl:
  "is_digit a \<Longrightarrow> is_digit b \<Longrightarrow>
     py_int [a, b, CHR 0x0A] = Some (10 * digit_val a + digit_val b)"
  using digit_facts [of a] digit_facts [of b] newline_facts
  by (simp add: py_int_def int_strip_def py_digits_def digits_value_def)

lemma match_shape:
  "time_pattern_match s \<Longrightarrow>
     (\<exists>a m1 m2 rest. s = a # CHR '':'' # m1 # m2 # rest \<and> is_digit a
         \<and> in_range CHR ''0'' CHR ''5'' m1 \<and> is_digit m2 \<and> (rest = [] \<or> rest = [CHR 0x0A]))
   \<or> (\<exists>a b m1 m2 rest. s = a # b # CHR '':'' # m1 # m2 # rest
         \<and> ((in_range CHR ''0'' CHR ''1'' a \<and> is_digit b)
             \<or> (a = CHR ''2'' \<and> in_range CHR ''0'' CHR ''3'' b))
         \<and> in_range CHR ''0'' CHR ''5'' m1 \<and> is_digit m2 \<and> (rest = [] \<or> rest = [CHR 0x0A]))"
  unfolding time_pattern_match_def match_group1_def match_rest_def
  by (auto split: list.splits if_splits)

lemma match_fields:
  assumes "time_pattern_match s"
  shows "\<exists>h m. named_hour_minute s = (h, m) \<and> parse_hour_minute s = Some (h, m)
           \<and> 0 \<le> h \<and> h < 24 \<and> 0 \<le> m \<and> m < 60"
proof -
  from match_shape [OF assms] consider
    (one) a m1 m2 rest where "s = a # CHR '':'' # m1 # m2 # rest" "is_digit a"
      "in_range CHR ''0'' CHR ''5'' m1" "is_digit m2" "rest = [] \<or> rest = [CHR 0x0A]"
  | (two) a b m1 m2 rest where "s = a # b # CHR '':'' # m1 # m2 # rest"
      "(in_range CHR ''0'' CHR ''1'' a \<and> is_digit b)
       \<or> (a = CHR ''2'' \<and> in_range CHR ''0'' CHR ''3'' b)"
      "in_range CHR ''0'' CHR ''5'' m1" "is_digit m2" "rest = [] \<or> rest = [CHR 0x0A]"
    by blast
  then show ?thesis
  proof cases
    case one
    note s = one(1) and a = one(2) and m1 = one(3) and m2 = one(4) and rest = one(5)
    have m1d: "is_digit m1" "digit_val m1 \<le> 5"
      using range_digit(3) [OF m1] by simp_all
    have sp: "split_on CHR '':'' s = [[a], m1 # m2 # rest]"
      using s rest digit_facts [OF a] digit_facts [OF m1d(1)] digit_facts [OF m2] newline_facts
      by auto
    have named: "named_hour_minute s = (digit_val a, 10 * digit_val m1 + digit_val m2)"
      using sp rest a m1d(1) m2 newline_facts(4)
      by (auto simp: named_hour_minute_def digits_value_def)
    have "py_int (m1 # m2 # rest) = Some (10 * digit_val m1 + digit_val m2)"
      using rest py_int_2 [OF m1d(1) m2] py_int_2nl [OF m1d(1) m2] by auto
    then have "parse_hour_minute s = Some (digit_val a, 10 * digit_val m1 + digit_val m2)"
      using sp py_int_1 [OF a] by (simp add: parse_hour_minute_def)
    then show ?thesis
      using named digit_facts [OF a] digit_facts [OF m1d(1)] digit_facts [OF m2] m1d(2) by simp
  next
    case two
    note s = two(1) and ab = two(2) and m1 = two(3) and m2 = two(4) and rest = two(5)
    have m1d: "is_digit m1" "digit_val m1 \<le> 5"
      using range_digit(3) [OF m1] by simp_all
    have abd: "is_digit a" "is_digit b" "10 * digit_val a + digit_val b < 24"
      using ab range_digit(1) [of a] range_digit(2) [of b] range_digit(4,5) digit_facts [of b]
      by auto
    have sp: "split_on CHR '':'' s = [[a, b], m1 # m2 # rest]"
      using s rest digit_facts [OF abd(1)] digit_facts [OF abd(2)]
        digit_facts [OF m1d(1)] digit_facts [OF m2] newline_facts
      by auto
    have named: "named_hour_minute s =
        (10 * digit_val a + digit_val b, 10 * digit_val m1 + digit_val m2)"
      using sp rest abd(1,2) m1d(1) m2 newline_facts(4)
      by (auto simp: named_hour_minute_def digits_value_def)
    have "py_int (m1 # m2 # rest) = Some (10 * digit_val m1 + digit_val m2)"
      using rest py_int_2 [OF m1d(1) m2] py_int_2nl [OF m1d(1) m2] by auto
    then have "parse_hour_minute s =
        Some (10 * digit_val a + digit_val b, 10 * digit_val m1 + digit_val m2)"
      using sp py_int_2 [OF abd(1,2)] by (simp add: parse_hour_minute_def)
    then show ?thesis
      using named digit_facts [OF abd(1)] digit_facts [OF abd(2)] abd(3)
        digit_facts [OF m1d(1)] digit_facts [OF m2] m1d(2) by simp
  qed
qed

lemma match_parses:
  assumes "time_pattern_match s"
  shows "\<exists>h m. parse_hour_minute s = Some (h, m) \<and> 0 \<le> h \<and> h < 24 \<and> 0 \<le> m \<and> m < 60"
  using match_fields [OF assms] by blast

lemma split_on_nonempty: "split_on sep s \<noteq> []"
  by (induction s) (auto split: list.splits)

lemma join_split_on: "join sep (split_on sep s) = s"
proof (induction s)
  case Nil
  then show ?case by simp
next
  case (Cons c cs)
  obtain p ps where sp: "split_on sep cs = p # ps"
    using split_on_nonempty [of sep cs] by (cases "split_on sep cs") auto
  with Cons show ?case by (cases ps) auto
qed

lemma split_on_two: "split_on sep s = [a, b] \<Longrightarrow> s = a @ sep # b"
  using join_split_on [of sep s] by simp

lemma char_is_2: "(of_char c :: nat) = 50 \<Longrightarrow> c = CHR ''2''"
  by (rule of_char_eq_iff [where ?'a = nat, THEN iffD1]) simp

lemma hour_digits:
  assumes "is_digit a" "is_digit b" "10 * digit_val a + digit_val b < 24"
  shows "in_range CHR ''0'' CHR ''1'' a \<or> (a = CHR ''2'' \<and> in_range CHR ''0'' CHR ''3'' b)"
proof (cases "(of_char a :: nat) \<le> 49")
  case True
  with assms(1) show ?thesis by (simp add: is_digit_def in_range_def)
next
  case False
  with assms have "(of_char a :: nat) = 50" "(of_char b :: nat) \<le> 51"
    by (auto simp: is_digit_def in_range_def digit_val_def)
  with assms(2) show ?thesis
    by (simp add: char_is_2 is_digit_def in_range_def)
qed

lemma minute_digits:
  assumes "is_digit a" "is_digit b" "10 * digit_val a + digit_val b < 60"
  shows "in_range CHR ''0'' CHR ''5'' a"
  using assms by (auto simp: is_digit_def in_range_def digit_val_def)

lemma valid_matches:
  assumes "valid_time_text s"
  shows "time_pattern_match s"
proof -
  from assms obtain hs ms where sp: "split_on CHR '':'' s = [hs, ms]"
    and hs: "length hs = 1 \<or> length hs = 2" "list_all is_digit hs" "digits_value hs < 24"
    and ms: "length ms = 2" "list_all is_digit ms" "digits_value ms < 60"
    by (auto simp: valid_time_text_def split: list.splits)
  have s: "s = hs @ CHR '':'' # ms" using sp by (rule split_on_two)
  from ms obtain m1 m2 where m: "ms = [m1, m2]" "is_digit m1" "is_digit m2"
      "10 * digit_val m1 + digit_val m2 < 60"
    by (cases ms; cases "tl ms") (auto simp: digits_value_def)
  have m1r: "in_range CHR ''0'' CHR ''5'' m1"
    using m(2-4) by (rule minute_digits)
  from hs(1) show ?thesis
  proof
    assume "length hs = 1"
    with hs obtain a where "hs = [a]" "is_digit a"
      by (cases hs) auto
    with s m m1r show ?thesis
      by (simp add: time_pattern_match_def match_group1_def match_rest_def)
  next
    assume "length hs = 2"
    with hs obtain a b where h: "hs = [a, b]" "is_digit a" "is_digit b"
        "10 * digit_val a + digit_val b < 24"
      by (cases hs; cases "tl hs") (auto simp: digits_value_def)
    from hour_digits [OF h(2-4)] s m m1r h(1-3) digit_facts [OF h(3)] show ?thesis
      by (auto simp: time_pattern_match_def match_group1_def match_rest_def)
  qed
qed

lemma matches_valid:
  assumes "time_pattern_match s" and "s = [] \<or> \<not> is_space (last s)"
  shows "valid_time_text s"
proof -
  from match_shape [OF assms(1)] consider
    (one) a m1 m2 rest where "s = a # CHR '':'' # m1 # m2 # rest" "is_digit a"
      "in_range CHR ''0'' CHR ''5'' m1" "is_digit m2" "rest = [] \<or> rest = [CHR 0x0A]"
  | (two) a b m1 m2 rest where "s = a # b # CHR '':'' # m1 # m2 # rest"
      "(in_range CHR ''0'' CHR ''1'' a \<and> is_digit b)
       \<or> (a = CHR ''2'' \<and> in_range CHR ''0'' CHR ''3'' b)"
      "in_range CHR ''0'' CHR ''5'' m1" "is_digit m2" "rest = [] \<or> rest = [CHR 0x0A]"
    by blast
  then show ?thesis
  proof cases
    case one
    have rest: "rest = []" using one(1,5) assms(2) newline_facts(1) by auto
    have m1d: "is_digit m1" "digit_val m1 \<le> 5"
      using range_digit(3) [OF one(3)] by simp_all
    have sp: "split_on CHR '':'' s = [[a], [m1, m2]]"
      using one(1) rest digit_facts [OF one(2)] digit_facts [OF m1d(1)] digit_facts [OF one(4)]
      by auto
    show ?thesis
      using sp one(2,4) m1d digit_facts [OF one(2)] digit_facts [OF one(4)] digit_facts [OF m1d(1)]
      by (simp add: valid_time_text_def digits_value_def)
  next
    case two
    have rest: "rest = []" using two(1,5) assms(2) newline_facts(1) by auto
    have m1d: "is_digit m1" "digit_val m1 \<le> 5"
      using range_digit(3) [OF two(3)] by simp_all
    have abd: "is_digit a" "is_digit b" "10 * digit_val a + digit_val b < 24"
      using two(2) range_digit(1) [of a] range_digit(2) [of b] range_digit(4,5) digit_facts [of b]
      by auto
    have sp: "split_on CHR '':'' s = [[a, b], [m1, m2]]"
      using two(1) rest digit_facts [OF abd(1)] digit_facts [OF abd(2)]
        digit_facts [OF m1d(1)] digit_facts [OF two(4)]
      by auto
    show ?thesis
      using sp abd two(4) m1d digit_facts [OF two(4)] digit_facts [OF m1d(1)]
      by (simp add: valid_time_text_def digits_value_def)
  qed
qed

lemma strip_last: "strip s = [] \<or> \<not> is_space (last (strip s))"
proof (cases "strip s = []")
  case True
  then show ?thesis by simp
next
  case False
  let ?d = "dropWhile is_space (rev (dropWhile is_space s))"
  from False have ne: "?d \<noteq> []" by (simp add: strip_def)
  then have "\<not> is_space (hd ?d)" by (rule hd_dropWhile)
  moreover have "last (strip s) = hd ?d"
    using ne by (simp add: strip_def last_rev)
  ultimately show ?thesis by simp
qed

lemma accepts_iff: "time_pattern_match (strip s) \<longleftrightarrow> valid_time_text (strip s)"
  using valid_matches matches_valid strip_last by blast

section \<open>The next run\<close>

lemma randint_0_30: "0 \<le> randint 0 30 e \<and> randint 0 30 e \<le> 30"
proof -
  have "e mod 31 < 31" by simp
  then show ?thesis by (simp add: randint_def)
qed

lemma day_floor:
  "(w div usec_per_day) * usec_per_day \<le> w"
  "w < (w div usec_per_day) * usec_per_day + usec_per_day"
proof -
  have pos: "0 < usec_per_day" by (simp add: usec_per_day_def)
  have "w = (w div usec_per_day) * usec_per_day + w mod usec_per_day" by simp
  moreover have "0 \<le> w mod usec_per_day" "w mod usec_per_day < usec_per_day"
    using pos by simp_all
  ultimately show "(w div usec_per_day) * usec_per_day \<le> w"
    "w < (w div usec_per_day) * usec_per_day + usec_per_day"
    by linarith+
qed

lemma time_of_day_range:
  assumes "0 \<le> h" "h < 24" "0 \<le> m" "m < 60" "0 \<le> s" "s < 60"
  shows "0 \<le> ((h * 60 + m) * 60 + s) * 1000000"
    and "((h * 60 + m) * 60 + s) * 1000000 < usec_per_day"
  using assms by (simp_all add: usec_per_day_def)

lemma date_of_offset:
  assumes "0 \<le> x" "x < usec_per_day"
  shows "date_of (k * usec_per_day + x) = k"
proof -
  have "(k * usec_per_day + x) div usec_per_day = k + x div usec_per_day"
    by (simp add: usec_per_day_def)
  also have "x div usec_per_day = 0" using assms by simp
  finally show ?thesis by (simp add: date_of_def)
qed

lemma second_of_sum:
  "((k * usec_per_day + ((h * 60 + m) * 60 + s) * 1000000 - off * 60000000) div 1000000) mod 60
     = s mod 60"
proof -
  define z where "z = k * 1440 + h * 60 + m - off"
  have eq: "k * usec_per_day + ((h * 60 + m) * 60 + s) * 1000000 - off * 60000000
      = (s + 60 * z) * 1000000"
    by (simp add: usec_per_day_def z_def algebra_simps)
  have "((s + 60 * z) * 1000000) div 1000000 = s + 60 * z"
    by simp
  moreover have "(s + 60 * z) mod 60 = s mod 60"
    by simp
  ultimately show ?thesis
    unfolding eq by simp
qed

text \<open>
  C4, as the code has it. For every time string the validator accepts, every zone and
  every clock reading, both scheduling paths compute the same datetime. Its UTC instant
  is strictly after the clock reading and has the drawn offset, from 0 to 30, as its
  seconds field. The candidate and the result are built on the UTC offset in force at
  the clock reading, which the datetime carries from \<^verbatim>\<open>datetime.now(tz)\<close> on: on that
  clock the candidate is the named hour and minute on today's date, and the result is
  the same time of day on today's date when the candidate is still ahead and on the
  next day otherwise. When the zone's offset at the result is the offset at the clock
  reading, that is the local reading of the result in the zone.
\<close>

theorem next_fire_properties:
  assumes "time_pattern_match time_str"
  shows "\<exists>h m cand sd.
           named_hour_minute time_str = (h, m)
         \<and> 0 \<le> h \<and> h < 24 \<and> 0 \<le> m \<and> m < 60
         \<and> parse_hour_minute time_str = Some (h, m)
         \<and> replace_time (datetime_now tz t) h m (randint 0 30 e) = Some cand
         \<and> wall cand = wall_reading (date_of (wall (datetime_now tz t))) h m (randint 0 30 e)
         \<and> setup_scheduled_datetime tz time_str e t = Some sd
         \<and> reschedule_scheduled_datetime tz time_str e t = Some sd
         \<and> wall sd =
             wall_reading
               (date_of (wall (datetime_now tz t))
                + (if wall cand \<le> wall (datetime_now tz t) then 1 else 0))
               h m (randint 0 30 e)
         \<and> utcoffset sd = tz t
         \<and> t < astimezone_utc sd
         \<and> second (utc_time_of (astimezone_utc sd)) = randint 0 30 e
         \<and> 0 \<le> second (utc_time_of (astimezone_utc sd))
         \<and> second (utc_time_of (astimezone_utc sd)) \<le> 30
         \<and> date_of (wall sd) =
             date_of (wall (datetime_now tz t))
             + (if wall cand \<le> wall (datetime_now tz t) then 1 else 0)
         \<and> (tz (astimezone_utc sd) = tz t \<longrightarrow> datetime_now tz (astimezone_utc sd) = sd)"
proof -
  from match_fields [OF assms] obtain h m where
    hm: "named_hour_minute time_str = (h, m)" "parse_hour_minute time_str = Some (h, m)"
      "0 \<le> h" "h < 24" "0 \<le> m" "m < 60"
    by blast
  define j where "j = randint 0 30 e"
  have j: "0 \<le> j" "j \<le> 30" using randint_0_30 [of e] by (simp_all add: j_def)
  define now where "now = datetime_now tz t"
  define w where "w = wall now"
  define k where "k = w div usec_per_day"
  define x where "x = ((h * 60 + m) * 60 + j) * 1000000"
  define cand where "cand = now\<lparr>wall := k * usec_per_day + x\<rparr>"
  define sd where "sd = (if wall cand \<le> wall now then plus_days cand 1 else cand)"
  have off: "utcoffset now = tz t" and wt: "w = t + tz t * 60000000"
    by (simp_all add: now_def w_def datetime_now_def)
  have x: "0 \<le> x" "x < usec_per_day"
    using time_of_day_range [of h m j] hm j by (simp_all add: x_def)
  have rep: "replace_time now h m j = Some cand"
    using hm j by (simp add: replace_time_def cand_def k_def w_def x_def)
  have sched1: "setup_scheduled_datetime tz time_str e t = Some sd"
    using hm(2) rep by (simp add: setup_scheduled_datetime_def Let_def sd_def j_def now_def)
  have sched2: "reschedule_scheduled_datetime tz time_str e t = Some sd"
    using hm(2) rep by (simp add: reschedule_scheduled_datetime_def Let_def sd_def j_def now_def)
  have wc: "wall cand = k * usec_per_day + x" and oc: "utcoffset cand = tz t"
    using off by (simp_all add: cand_def)
  have kd: "date_of w = k" by (simp add: date_of_def k_def)
  have wcr: "wall cand = wall_reading (date_of w) h m j"
    using wc kd by (simp add: wall_reading_def x_def)
  have bounds: "k * usec_per_day \<le> w" "w < k * usec_per_day + usec_per_day"
    using day_floor [of w] by (simp_all add: k_def)
  have wsd: "wall sd = (if wall cand \<le> w then k + 1 else k) * usec_per_day + x"
    and osd: "utcoffset sd = tz t"
    using wc oc by (simp_all add: sd_def plus_days_def w_def algebra_simps)
  have wsr: "wall sd = wall_reading (date_of w + (if wall cand \<le> w then 1 else 0)) h m j"
    using wsd kd by (simp add: wall_reading_def x_def)
  have later: "w < wall sd"
    using wsd wc bounds x by (auto simp: algebra_simps)
  have future: "t < astimezone_utc sd"
    using later osd wt by (simp add: astimezone_utc_def)
  have sec: "second (utc_time_of (astimezone_utc sd)) = j"
  proof -
    have "second (utc_time_of (astimezone_utc sd)) = j mod 60"
      unfolding utc_time_of_def astimezone_utc_def wsd osd x_def
      by (simp only: time_of_day.simps second_of_sum)
    with j show ?thesis by simp
  qed
  have dt: "date_of (wall sd) = date_of w + (if wall cand \<le> w then 1 else 0)"
  proof -
    have "date_of (wall sd) = (if wall cand \<le> w then k + 1 else k)"
      unfolding wsd using x by (rule date_of_offset)
    with kd show ?thesis by simp
  qed
  have same: "datetime_now tz (astimezone_utc sd) = sd" if "tz (astimezone_utc sd) = tz t"
    using that osd by (simp add: datetime_now_def astimezone_utc_def)
  have "named_hour_minute time_str = (h, m)
      \<and> 0 \<le> h \<and> h < 24 \<and> 0 \<le> m \<and> m < 60
      \<and> parse_hour_minute time_str = Some (h, m)
      \<and> replace_time (datetime_now tz t) h m (randint 0 30 e) = Some cand
      \<and> wall cand = wall_reading (date_of (wall (datetime_now tz t))) h m (randint 0 30 e)
      \<and> setup_scheduled_datetime tz time_str e t = Some sd
      \<and> reschedule_scheduled_datetime tz time_str e t = Some sd
      \<and> wall sd =
          wall_reading
            (date_of (wall (datetime_now tz t))
             + (if wall cand \<le> wall (datetime_now tz t) then 1 else 0))
            h m (randint 0 30 e)
      \<and> utcoffset sd = tz t
      \<and> t < astimezone_utc sd
      \<and> second (utc_time_of (astimezone_utc sd)) = randint 0 30 e
      \<and> 0 \<le> second (utc_time_of (astimezone_utc sd))
      \<and> second (utc_time_of (astimezone_utc sd)) \<le> 30
      \<and> date_of (wall sd) =
          date_of (wall (datetime_now tz t))
          + (if wall cand \<le> wall (datetime_now tz t) then 1 else 0)
      \<and> (tz (astimezone_utc sd) = tz t \<longrightarrow> datetime_now tz (astimezone_utc sd) = sd)"
    using hm rep wcr sched1 sched2 wsr osd future sec j dt same
    unfolding j_def now_def w_def by simp
  then show ?thesis by blast
qed

lemma match_1500: "time_pattern_match ''15:00''"
  by (simp add: time_pattern_match_def match_group1_def match_rest_def is_digit_def in_range_def)

lemma parse_1500: "parse_hour_minute ''15:00'' = Some (15, 0)"
  by (simp add: parse_hour_minute_def py_int_def int_strip_def is_int_space_def in_range_def
      py_digits_def is_digit_def digits_value_def digit_val_def)

lemma sched_a:
  "setup_scheduled_datetime america_chicago ''15:00'' 7 1709323800000000 =
     Some \<lparr>wall = 1709305207000000, utcoffset = - 360\<rparr>"
  by (simp add: setup_scheduled_datetime_def parse_1500 randint_def datetime_now_def
      america_chicago_def replace_time_def usec_per_day_def plus_days_def Let_def)

lemma sched_b:
  "setup_scheduled_datetime america_chicago ''15:00'' 7 1709328600000000 =
     Some \<lparr>wall = 1709391607000000, utcoffset = - 360\<rparr>"
  by (simp add: setup_scheduled_datetime_def parse_1500 randint_def datetime_now_def
      america_chicago_def replace_time_def usec_per_day_def plus_days_def Let_def)

lemma registered_user: "get_user tag_fernet registered_db 42 = Some alice"
  by (simp add: registered_db_def update_user_notification_time_def update_user_timezone_def
      add_user_def get_user_def decrypt_row_def encrypt_def decrypt_def get_user_settings_def
      tag_fernet_def empty_db_def alice_def Let_def)

lemma registered_settings:
  "get_user_settings registered_db 42 =
     Some \<lparr>settings_telegram_id = 42, timezone = ''America/Chicago'',
           notification_frequency = ''daily'', notification_time = ''15:00''\<rparr>"
  by (simp add: registered_db_def update_user_notification_time_def update_user_timezone_def
      add_user_def get_user_settings_def empty_db_def Let_def)

lemma job_name_42: "job_name_of 42 = ''grade_check_user_42''"
  by code_simp

lemma named_1500: "named_hour_minute ''15:00'' = (15, 0)"
  by (simp add: named_hour_minute_def is_digit_def in_range_def digits_value_def digit_val_def)

theorem next_fire_properties_witness:
  "time_pattern_match ''15:00''
   \<and> named_hour_minute ''15:00'' = (15, 0)
   \<and> map_option astimezone_utc
       (setup_scheduled_datetime america_chicago ''15:00'' 7 1709323800000000) =
       Some 1709326807000000
   \<and> map_option astimezone_utc
       (reschedule_scheduled_datetime america_chicago ''15:00'' 7 1709323800000000) =
       Some 1709326807000000
   \<and> utc_time_of 1709326807000000 = \<lparr>hour = 21, minute = 0, second = 7\<rparr>
   \<and> date_of (wall (datetime_now america_chicago 1709323800000000)) = 19783
   \<and> wall_reading 19783 15 0 7 = 1709305207000000
   \<and> datetime_now america_chicago 1709326807000000 =
       \<lparr>wall = 1709305207000000, utcoffset = - 360\<rparr>
   \<and> map_option astimezone_utc
       (setup_scheduled_datetime america_chicago ''15:00'' 7 1709328600000000) =
       Some 1709413207000000
   \<and> date_of (wall (datetime_now america_chicago 1709328600000000)) = 19783
   \<and> wall_reading 19784 15 0 7 = 1709391607000000"
proof -
  have same: "reschedule_scheduled_datetime america_chicago ''15:00'' 7 1709323800000000 =
      setup_scheduled_datetime america_chicago ''15:00'' 7 1709323800000000"
    using next_fire_properties [OF match_1500, of america_chicago 1709323800000000 7]
    by auto
  show ?thesis
    unfolding same sched_a sched_b
    using match_1500 named_1500
    by (simp add: astimezone_utc_def utc_time_of_def date_of_def usec_per_day_def
        datetime_now_def america_chicago_def wall_reading_def)
qed

lemma match_2330: "time_pattern_match ''23:30''"
  by (simp add: time_pattern_match_def match_group1_def match_rest_def is_digit_def in_range_def)

lemma parse_2330: "parse_hour_minute ''23:30'' = Some (23, 30)"
  by (simp add: parse_hour_minute_def py_int_def int_strip_def is_int_space_def in_range_def
      py_digits_def is_digit_def digits_value_def digit_val_def)

text \<open>
  C4, as the specification states it, fails across a daylight-saving change. In Chicago
  at 00:30 on 2024-03-10 (06:30:00Z, standard time) the candidate for \<^verbatim>\<open>23:30\<close> is still
  ahead, so the date is kept; converted with the standard offset the result is
  2024-03-11T05:30:07Z, which in Chicago, then on daylight-saving time, is 00:30:07 on
  2024-03-11: the next local date, although the candidate was not at or before now.
\<close>

theorem next_fire_dst_counterexample:
  "time_pattern_match ''23:30''
   \<and> datetime_now america_chicago 1710052200000000 =
       \<lparr>wall = 1710030600000000, utcoffset = - 360\<rparr>
   \<and> date_of 1710030600000000 = 19792
   \<and> replace_time (datetime_now america_chicago 1710052200000000) 23 30 7 =
       Some \<lparr>wall = 1710113407000000, utcoffset = - 360\<rparr>
   \<and> map_option astimezone_utc
       (setup_scheduled_datetime america_chicago ''23:30'' 7 1710052200000000) =
       Some 1710135007000000
   \<and> datetime_now america_chicago 1710135007000000 =
       \<lparr>wall = 1710117007000000, utcoffset = - 300\<rparr>
   \<and> date_of 1710117007000000 = 19793"
proof -
  have now: "datetime_now america_chicago 1710052200000000 =
       \<lparr>wall = 1710030600000000, utcoffset = - 360\<rparr>"
    by (simp add: datetime_now_def america_chicago_def)
  have cand: "replace_time \<lparr>wall = 1710030600000000, utcoffset = - 360\<rparr> 23 30 7 =
       Some \<lparr>wall = 1710113407000000, utcoffset = - 360\<rparr>"
    by (simp add: replace_time_def usec_per_day_def)
  have "map_option astimezone_utc
       (setup_scheduled_datetime america_chicago ''23:30'' 7 1710052200000000) =
       Some 1710135007000000"
    by (simp add: setup_scheduled_datetime_def parse_2330 randint_def now cand
        astimezone_utc_def Let_def)
  moreover have "datetime_now america_chicago 1710135007000000 =
       \<lparr>wall = 1710117007000000, utcoffset = - 300\<rparr>"
    by (simp add: datetime_now_def america_chicago_def)
  moreover have "date_of 1710030600000000 = 19792" "date_of 1710117007000000 = 19793"
    by (simp_all add: date_of_def usec_per_day_def)
  ultimately show ?thesis
    using match_2330 now cand by simp
qed

section \<open>Rescheduling\<close>

lemma fold_remove1_filter:
  "\<forall>y \<in> set ys. \<not> P y \<Longrightarrow>
     fold remove1 (filter P xs) (ys @ xs) = ys @ filter (\<lambda>x. \<not> P x) xs"
proof (induction xs arbitrary: ys)
  case Nil
  then show ?case by simp
next
  case (Cons x xs)
  show ?case
  proof (cases "P x")
    case True
    with Cons.prems have "x \<notin> set ys" by auto
    then have "remove1 x (ys @ x # xs) = ys @ xs"
      by (simp add: remove1_append)
    with True Cons.IH [OF Cons.prems] show ?thesis by simp
  next
    case False
    with Cons.prems have "\<forall>y \<in> set (ys @ [x]). \<not> P y" by simp
    from Cons.IH [OF this] False show ?thesis by simp
  qed
qed

lemma removal_loop:
  "fold schedule_removal (get_jobs_by_name name q) q = filter (\<lambda>j. job_name j \<noteq> name) q"
proof -
  have "fold remove1 (filter (\<lambda>j. job_name j = name) q) ([] @ q)
      = [] @ filter (\<lambda>j. \<not> job_name j = name) q"
    by (rule fold_remove1_filter) simp
  moreover have "schedule_removal = remove1"
    by (rule ext)+ (simp add: schedule_removal_def)
  ultimately show ?thesis by (simp add: get_jobs_by_name_def)
qed

lemma scheduled_datetime_defined:
  assumes "time_pattern_match time_str"
  shows "\<exists>sd. reschedule_scheduled_datetime tz time_str e t = Some sd"
proof -
  from match_parses [OF assms] obtain h m where
    hm: "parse_hour_minute time_str = Some (h, m)" "0 \<le> h" "h < 24" "0 \<le> m" "m < 60"
    by blast
  have "0 \<le> randint 0 30 e" "randint 0 30 e < 60"
    using randint_0_30 [of e] by simp_all
  with hm show ?thesis
    by (simp add: reschedule_scheduled_datetime_def replace_time_def Let_def)
qed

lemma reschedule_success:
  assumes "get_user F db tid = Some usr"
      and "zones (case get_user_settings db tid of Some s \<Rightarrow> timezone s
                  | None \<Rightarrow> ''America/Chicago'') = Some tz"
      and "time_pattern_match time_str"
  shows "\<exists>sd. reschedule_scheduled_datetime tz time_str e t = Some sd
      \<and> reschedule_user_job F zones db e t tid time_str q =
          filter (\<lambda>j. job_name j \<noteq> job_name_of tid) q
          @ [\<lparr>job_name = job_name_of tid, job_time = utc_time_of (astimezone_utc sd),
               next_run_time = astimezone_utc sd, job_data = usr\<rparr>]"
proof -
  from scheduled_datetime_defined [OF assms(3), of tz e t] obtain sd where
    sd: "reschedule_scheduled_datetime tz time_str e t = Some sd" by blast
  then show ?thesis
    using assms(1,2)
    by (simp add: reschedule_user_job_def Let_def removal_loop run_daily_def)
qed

text \<open>
  C5. For a stored account that decrypts, a zone name the database knows and a time the
  validator accepts, one call of \<^verbatim>\<open>reschedule_user_job\<close> leaves exactly one job under
  the user's job name whatever the queue held, two calls in succession leave exactly
  one, and the jobs under other names are as they were.
\<close>

theorem reschedule_leaves_one_job:
  assumes "get_user F db tid = Some usr"
      and "zones (case get_user_settings db tid of Some s \<Rightarrow> timezone s
                  | None \<Rightarrow> ''America/Chicago'') = Some tz"
      and "time_pattern_match time_str"
  shows "length (get_jobs_by_name (job_name_of tid)
            (reschedule_user_job F zones db e1 t1 tid time_str q)) = 1
       \<and> length (get_jobs_by_name (job_name_of tid)
            (reschedule_user_job F zones db e2 t2 tid time_str
               (reschedule_user_job F zones db e1 t1 tid time_str q))) = 1
       \<and> filter (\<lambda>j. job_name j \<noteq> job_name_of tid)
            (reschedule_user_job F zones db e2 t2 tid time_str
               (reschedule_user_job F zones db e1 t1 tid time_str q)) =
          filter (\<lambda>j. job_name j \<noteq> job_name_of tid) q"
proof -
  let ?n = "job_name_of tid"
  have one: "length (get_jobs_by_name ?n (reschedule_user_job F zones db e t tid time_str q')) = 1"
    and rest: "filter (\<lambda>j. job_name j \<noteq> ?n) (reschedule_user_job F zones db e t tid time_str q')
         = filter (\<lambda>j. job_name j \<noteq> ?n) q'" for e t q'
  proof -
    from reschedule_success [of F db tid usr zones tz time_str e t q', OF assms] obtain sd where
      r: "reschedule_user_job F zones db e t tid time_str q' =
          filter (\<lambda>j. job_name j \<noteq> ?n) q'
          @ [\<lparr>job_name = ?n, job_time = utc_time_of (astimezone_utc sd),
               next_run_time = astimezone_utc sd, job_data = usr\<rparr>]"
      by blast
    show "length (get_jobs_by_name ?n (reschedule_user_job F zones db e t tid time_str q')) = 1"
      unfolding r by (simp add: get_jobs_by_name_def)
    show "filter (\<lambda>j. job_name j \<noteq> ?n) (reschedule_user_job F zones db e t tid time_str q')
         = filter (\<lambda>j. job_name j \<noteq> ?n) q'"
      unfolding r by simp
  qed
  show ?thesis
    by (simp add: one rest)
qed

lemma registered_zone:
  "zones_2024 (case get_user_settings registered_db 42 of Some s \<Rightarrow> timezone s
               | None \<Rightarrow> ''America/Chicago'') = Some america_chicago"
  by (simp add: registered_settings zones_2024_def)

lemma resched_a:
  "reschedule_scheduled_datetime america_chicago ''15:00'' 7 1709323800000000 =
     Some \<lparr>wall = 1709305207000000, utcoffset = - 360\<rparr>"
  by (simp add: reschedule_scheduled_datetime_def parse_1500 randint_def datetime_now_def
      america_chicago_def replace_time_def usec_per_day_def plus_days_def Let_def)

lemma resched_c:
  "reschedule_scheduled_datetime america_chicago ''15:00'' 9 1709323900000000 =
     Some \<lparr>wall = 1709305209000000, utcoffset = - 360\<rparr>"
  by (simp add: reschedule_scheduled_datetime_def parse_1500 randint_def datetime_now_def
      america_chicago_def replace_time_def usec_per_day_def plus_days_def Let_def)

theorem reschedule_leaves_one_job_witness:
  "get_user tag_fernet registered_db 42 = Some alice
   \<and> time_pattern_match ''15:00''
   \<and> reschedule_user_job tag_fernet zones_2024 registered_db 9 1709323900000000 42 ''15:00''
       (reschedule_user_job tag_fernet zones_2024 registered_db 7 1709323800000000 42 ''15:00'' []) =
       [\<lparr>job_name = job_name_of 42, job_time = \<lparr>hour = 21, minute = 0, second = 9\<rparr>,
         next_run_time = 1709326809000000, job_data = alice\<rparr>]
   \<and> length (get_jobs_by_name (job_name_of 42)
       (reschedule_user_job tag_fernet zones_2024 registered_db 9 1709323900000000 42 ''15:00''
         (reschedule_user_job tag_fernet zones_2024 registered_db 7 1709323800000000 42 ''15:00'' []))) = 1
   \<and> job_name_of 42 = ''grade_check_user_42''"
proof -
  have first: "reschedule_user_job tag_fernet zones_2024 registered_db 7 1709323800000000 42 ''15:00'' [] =
      [\<lparr>job_name = job_name_of 42, job_time = \<lparr>hour = 21, minute = 0, second = 7\<rparr>,
        next_run_time = 1709326807000000, job_data = alice\<rparr>]"
    by (simp add: reschedule_user_job_def registered_user registered_settings zones_2024_def
        resched_a removal_loop run_daily_def astimezone_utc_def utc_time_of_def Let_def)
  have second: "reschedule_user_job tag_fernet zones_2024 registered_db 9 1709323900000000 42 ''15:00''
      [\<lparr>job_name = job_name_of 42, job_time = \<lparr>hour = 21, minute = 0, second = 7\<rparr>,
        next_run_time = 1709326807000000, job_data = alice\<rparr>] =
      [\<lparr>job_name = job_name_of 42, job_time = \<lparr>hour = 21, minute = 0, second = 9\<rparr>,
        next_run_time = 1709326809000000, job_data = alice\<rparr>]"
    by (simp add: reschedule_user_job_def registered_user registered_settings zones_2024_def
        resched_c removal_loop run_daily_def astimezone_utc_def utc_time_of_def Let_def)
  from reschedule_leaves_one_job [where F = tag_fernet and db = registered_db and tid = 42
      and usr = alice and zones = zones_2024 and tz = america_chicago and time_str = "''15:00''"
      and ?e1.0 = 7 and ?t1.0 = 1709323800000000 and q = "[]"
      and ?e2.0 = 9 and ?t2.0 = 1709323900000000,
      OF registered_user registered_zone match_1500]
  have "get_user tag_fernet registered_db 42 = Some alice
   \<and> time_pattern_match ''15:00''
   \<and> reschedule_user_job tag_fernet zones_2024 registered_db 9 1709323900000000 42 ''15:00''
       (reschedule_user_job tag_fernet zones_2024 registered_db 7 1709323800000000 42 ''15:00'' []) =
       [\<lparr>job_name = job_name_of 42, job_time = \<lparr>hour = 21, minute = 0, second = 9\<rparr>,
         next_run_time = 1709326809000000, job_data = alice\<rparr>]
   \<and> length (get_jobs_by_name (job_name_of 42)
       (reschedule_user_job tag_fernet zones_2024 registered_db 9 1709323900000000 42 ''15:00''
         (reschedule_user_job tag_fernet zones_2024 registered_db 7 1709323800000000 42 ''15:00'' []))) = 1"
    using registered_user match_1500 by (simp add: first second)
  with job_name_42 show ?thesis by blast
qed

section \<open>Validation of the time a user sends\<close>

text \<open>
  C7, as the code has it. Both handlers strip the text, and accept it exactly when what
  is left is an hour from 0 to 23 written with one or two digits, a colon and a minute
  from 00 to 59 written with two digits. An accepted time is stored as stripped; a
  rejected text leaves the store and the queue as they were.
\<close>

theorem time_input_validation:
  "(fst (set_notification_time F zones e t uid txt db q) = ConversationHandler_END)
     = valid_time_text (strip txt)
   \<and> (fst (setup_notification_time_input uid txt db) = ConversationHandler_END)
     = valid_time_text (strip txt)
   \<and> (if valid_time_text (strip txt)
       then map_option notification_time
              (get_user_settings (fst (snd (set_notification_time F zones e t uid txt db q))) uid)
              = Some (strip txt)
          \<and> map_option notification_time
              (get_user_settings (snd (setup_notification_time_input uid txt db)) uid)
              = Some (strip txt)
       else snd (set_notification_time F zones e t uid txt db q) = (db, q)
          \<and> snd (setup_notification_time_input uid txt db) = db)"
proof (cases "time_pattern_match (strip txt)")
  case True
  then have "valid_time_text (strip txt)" by (simp add: accepts_iff)
  with True show ?thesis
    by (simp add: set_notification_time_def setup_notification_time_input_def Let_def
        update_user_notification_time_def get_user_settings_def update_conv')
next
  case False
  then have "\<not> valid_time_text (strip txt)" by (simp add: accepts_iff)
  with False show ?thesis
    by (simp add: set_notification_time_def setup_notification_time_input_def Let_def)
qed

lemma strip_930: "strip ''9:30'' = ''9:30''"
  by (simp add: strip_def is_space_def in_range_def)

lemma match_930: "time_pattern_match ''9:30''"
  by (simp add: time_pattern_match_def match_group1_def match_rest_def is_digit_def in_range_def)

text \<open>
  C7, as the specification states it, fails: \<^verbatim>\<open>9:30\<close> is not of the form HH:MM, and both
  handlers accept and store it.
\<close>

theorem one_digit_hour_accepted_counterexample:
  "\<not> hhmm_24h ''9:30''
   \<and> setup_notification_time_input 42 ''9:30'' registered_db =
       (ConversationHandler_END, snd (update_user_notification_time 42 ''9:30'' registered_db))
   \<and> get_user_settings (snd (setup_notification_time_input 42 ''9:30'' registered_db)) 42 =
       Some \<lparr>settings_telegram_id = 42, timezone = ''America/Chicago'',
             notification_frequency = ''daily'', notification_time = ''9:30''\<rparr>
   \<and> fst (set_notification_time tag_fernet zones_2024 7 1709323800000000 42 ''9:30'' registered_db [])
       = ConversationHandler_END"
proof -
  define db' where "db' = snd (update_user_notification_time 42 ''9:30'' registered_db)"
  have upd: "update_user_notification_time 42 ''9:30'' registered_db = (True, db')"
    by (simp add: db'_def update_user_notification_time_def Let_def)
  have "\<not> hhmm_24h ''9:30''"
    by (simp add: hhmm_24h_def)
  moreover have "get_user_settings db' 42 =
       Some \<lparr>settings_telegram_id = 42, timezone = ''America/Chicago'',
             notification_frequency = ''daily'', notification_time = ''9:30''\<rparr>"
    by (simp add: db'_def update_user_notification_time_def registered_settings
        get_user_settings_update Let_def)
  ultimately show ?thesis
    by (simp add: setup_notification_time_input_def set_notification_time_def strip_930 match_930
        upd Let_def)
qed

section \<open>Firings\<close>


lemma get_user_after_time_update:
  "get_user F (snd (update_user_notification_time uid new_time db)) tid = get_user F db tid"
  by (simp add: update_user_notification_time_def get_user_def decrypt_row_def decrypt_def Let_def
      cong: option.case_cong)

lemma job_fired_keeps:
  "map job_name (job_fired trigger t j q) = map job_name q"
  "map job_time (job_fired trigger t j q) = map job_time q"
  "map job_data (job_fired trigger t j q) = map job_data q"
  by (simp_all add: job_fired_def)

lemma alice_id: "telegram_id alice = 42" "aspen_username alice = ''alice''"
  "aspen_password alice = ''s3cret pw''"
  by (simp_all add: alice_def)

lemma alice_job_data: "job_data alice_job = alice"
  "job_time alice_job = \<lparr>hour = 21, minute = 0, second = 7\<rparr>"
  by (simp_all add: alice_job_def)





lemma registered_row:
  "map_of (users registered_db) 42 =
      Some \<lparr>col_aspen_username = ''K1alice'', col_aspen_password = ''K1s3cret pw'',
            col_notification_method = ''telegram'', col_email = None, col_is_active = True,
            col_created_at = 1000, col_last_updated = 1000\<rparr>"
  by (simp add: registered_db_def update_user_notification_time_def update_user_timezone_def
      add_user_def encrypt_def tag_fernet_def empty_db_def Let_def)

lemma registered_users:
  "users registered_db =
      [(42, \<lparr>col_aspen_username = ''K1alice'', col_aspen_password = ''K1s3cret pw'',
            col_notification_method = ''telegram'', col_email = None, col_is_active = True,
            col_created_at = 1000, col_last_updated = 1000\<rparr>)]"
  by (simp add: registered_db_def update_user_notification_time_def update_user_timezone_def
      add_user_def encrypt_def tag_fernet_def empty_db_def Let_def)

lemma registered_key: "encryption_key registered_db = ''K1''"
  by (simp add: registered_db_def update_user_notification_time_def update_user_timezone_def
      add_user_def empty_db_def Let_def split: option.splits)

lemma friday_run:
  "fetch_and_notify_user tag_fernet zones_2024 utc_zone grades_stub (\<lambda>m. True)
       registered_db 1709326807000000 1709326852000000 None alice_job
     = [(42, Grades ''Math: A'')]"
  by (simp add: fetch_and_notify_user_def alice_job_data alice_id registered_user
      registered_settings zones_2024_def weekday_def date_of_def naive_now_def utc_zone_def
      usec_per_day_def grades_stub_def deliverable_prefix_def Let_def)




text \<open>
  C3, as the code has it. When the weekday of the naive process clock at entry is
  Saturday or Sunday, the callback sends nothing; the job stays in the queue with its
  name and its time of day.
\<close>

theorem weekend_skip_by_process_clock:
  assumes "5 \<le> weekday (naive_now local_zone t_entry)"
  shows "fetch_and_notify_user F zones local_zone scraper accepts db t_entry t_fetch sched j = []
       \<and> map job_name (job_fired trigger t j q) = map job_name q
       \<and> map job_time (job_fired trigger t j q) = map job_time q"
  using assms
  by (simp add: fetch_and_notify_user_def job_fired_keeps Let_def split: option.splits)

theorem weekend_skip_by_process_clock_witness:
  "weekday (naive_now utc_zone 1709413207000000) = 5
   \<and> fetch_and_notify_user tag_fernet zones_2024 utc_zone grades_stub (\<lambda>m. True)
       registered_db 1709413207000000 1709413252000000 None alice_job = []
   \<and> map job_time (job_fired daily_trigger 1709413207000000 alice_job [alice_job])
       = [\<lparr>hour = 21, minute = 0, second = 7\<rparr>]"
proof -
  have sat: "weekday (naive_now utc_zone 1709413207000000) = 5"
    by (simp add: weekday_def date_of_def naive_now_def utc_zone_def usec_per_day_def)
  then have h: "5 \<le> weekday (naive_now utc_zone 1709413207000000)" by simp
  from weekend_skip_by_process_clock [OF h, of tag_fernet zones_2024 grades_stub "\<lambda>m. True"
      registered_db 1709413252000000 None alice_job daily_trigger 1709413207000000 "[alice_job]"]
  show ?thesis
    using sat by (simp add: alice_job_data)
qed

lemma evening_settings:
  "get_user_settings evening_db 42 =
     Some \<lparr>settings_telegram_id = 42, timezone = ''America/Chicago'',
           notification_frequency = ''daily'', notification_time = ''19:00''\<rparr>"
  by (simp add: evening_db_def update_user_notification_time_def registered_settings
      get_user_settings_update Let_def)

lemma evening_user: "get_user tag_fernet evening_db 42 = Some alice"
  by (simp add: evening_db_def get_user_after_time_update registered_user)

text \<open>
  C3, as the specification states it, fails. The process runs on the UTC clock and the
  user is in Chicago with notifications at 19:00. The firing of Sunday 2024-03-03,
  19:00:07 Chicago time, happens at 01:00:07 UTC on Monday: the weekday in the user's
  zone is Sunday (6), the process clock says Monday (0), and the grades are sent.
\<close>

theorem local_sunday_still_sent_counterexample:
  "get_user_settings evening_db 42 =
     Some \<lparr>settings_telegram_id = 42, timezone = ''America/Chicago'',
           notification_frequency = ''daily'', notification_time = ''19:00''\<rparr>
   \<and> weekday (wall (datetime_now america_chicago 1709514007000000)) = 6
   \<and> weekday (naive_now utc_zone 1709514007000000) = 0
   \<and> fetch_and_notify_user tag_fernet zones_2024 utc_zone grades_stub (\<lambda>m. True)
       evening_db 1709514007000000 1709514052000000 None evening_job
       = [(42, Grades ''Math: A'')]"
proof -
  have "weekday (wall (datetime_now america_chicago 1709514007000000)) = 6"
    by (simp add: weekday_def date_of_def datetime_now_def america_chicago_def usec_per_day_def)
  moreover have "weekday (naive_now utc_zone 1709514007000000) = 0"
    by (simp add: weekday_def date_of_def naive_now_def utc_zone_def usec_per_day_def)
  moreover have "fetch_and_notify_user tag_fernet zones_2024 utc_zone grades_stub (\<lambda>m. True)
       evening_db 1709514007000000 1709514052000000 None evening_job
       = [(42, Grades ''Math: A'')]"
    by (simp add: fetch_and_notify_user_def evening_job_def alice_id evening_user
        evening_settings zones_2024_def weekday_def date_of_def naive_now_def utc_zone_def
        usec_per_day_def grades_stub_def deliverable_prefix_def Let_def)
  ultimately show ?thesis
    using evening_settings by simp
qed

lemma settings_after_deactivate:
  "get_user_settings (snd (deactivate_user utcnow uid db)) tid = get_user_settings db tid"
  by (simp add: deactivate_user_def get_user_settings_def split: option.splits)

lemma credentials_after_deactivate:
  "map_option (\<lambda>u. (aspen_username u, aspen_password u))
     (get_user F (snd (deactivate_user utcnow uid db)) tid)
   = map_option (\<lambda>u. (aspen_username u, aspen_password u)) (get_user F db tid)"
proof (cases "map_of (users db) uid")
  case None
  then show ?thesis by (simp add: deactivate_user_def)
next
  case (Some row)
  show ?thesis
  proof (cases "tid = uid")
    case True
    with Some show ?thesis
      by (simp add: deactivate_user_def get_user_def decrypt_row_def decrypt_def update_conv'
          split: option.splits)
  next
    case False
    with Some show ?thesis
      by (simp add: deactivate_user_def get_user_def decrypt_row_def decrypt_def update_conv'
          cong: option.case_cong)
  qed
qed

lemma fetch_reads_credentials_only:
  assumes "map_option (\<lambda>u. (aspen_username u, aspen_password u))
             (get_user F db1 (telegram_id (job_data j)))
           = map_option (\<lambda>u. (aspen_username u, aspen_password u))
             (get_user F db2 (telegram_id (job_data j)))"
      and "get_user_settings db1 (telegram_id (job_data j))
           = get_user_settings db2 (telegram_id (job_data j))"
  shows "fetch_and_notify_user F zones local_zone scraper accepts db1 t_entry t_fetch sched j
       = fetch_and_notify_user F zones local_zone scraper accepts db2 t_entry t_fetch sched j"
proof (cases "get_user F db1 (telegram_id (job_data j))")
  case None
  with assms(1) have "get_user F db2 (telegram_id (job_data j)) = None" by simp
  with None show ?thesis by (simp add: fetch_and_notify_user_def)
next
  case (Some u1)
  show ?thesis
  proof (cases "get_user F db2 (telegram_id (job_data j))")
    case None
    with Some assms(1) show ?thesis by simp
  next
    case (Some u2)
    with \<open>get_user F db1 (telegram_id (job_data j)) = Some u1\<close> assms(1)
    have "aspen_username u2 = aspen_username u1" "aspen_password u2 = aspen_password u1"
      by simp_all
    with Some \<open>get_user F db1 (telegram_id (job_data j)) = Some u1\<close> assms(2) show ?thesis
      by (simp add: fetch_and_notify_user_def Let_def cong: option.case_cong if_cong)
  qed
qed

text \<open>
  C9, as the code has it. The callback looks the account up with \<^verbatim>\<open>get_user\<close>, which
  does not filter on \<^verbatim>\<open>is_active\<close>: a firing against the store after
  \<^verbatim>\<open>deactivate_user\<close> sends exactly what it sends against the store before it. The
  account check ends the firing when \<^verbatim>\<open>get_user\<close> returns nothing, as it does for an
  absent row and for a row that does not decrypt; a weekend of the process clock ends
  it too; and for an account that \<^verbatim>\<open>get_user\<close> returns, active or not, on a weekday
  of the process clock, with a zone name the database knows and a scraper that returns,
  the messages are sent.
\<close>

theorem firing_ignores_is_active:
  "fetch_and_notify_user F zones local_zone scraper accepts
       (snd (deactivate_user utcnow uid db)) t_entry t_fetch sched j
     = fetch_and_notify_user F zones local_zone scraper accepts db t_entry t_fetch sched j
   \<and> (get_user F db (telegram_id (job_data j)) = None \<longrightarrow>
        fetch_and_notify_user F zones local_zone scraper accepts db t_entry t_fetch sched j = [])
   \<and> (map_of (users db) (telegram_id (job_data j)) = None \<longrightarrow>
        get_user F db (telegram_id (job_data j)) = None)
   \<and> (\<forall>row. map_of (users db) (telegram_id (job_data j)) = Some row
              \<and> decrypt_row F db (telegram_id (job_data j)) row = None \<longrightarrow>
        get_user F db (telegram_id (job_data j)) = None)
   \<and> (5 \<le> weekday (naive_now local_zone t_entry) \<longrightarrow>
        fetch_and_notify_user F zones local_zone scraper accepts db t_entry t_fetch sched j = [])
   \<and> (\<forall>u tz messages.
         get_user F db (telegram_id (job_data j)) = Some u
         \<and> weekday (naive_now local_zone t_entry) < 5
         \<and> zones (case get_user_settings db (telegram_id (job_data j)) of
                     Some s \<Rightarrow> timezone s | None \<Rightarrow> ''America/Chicago'') = Some tz
         \<and> scraper (aspen_username u) (aspen_password u) (datetime_now tz t_fetch) = Some messages
         \<longrightarrow>
         fetch_and_notify_user F zones local_zone scraper accepts db t_entry t_fetch sched j
           = deliverable_prefix accepts (telegram_id (job_data j))
               (map Grades messages
                @ (if (case sched of Some s \<Rightarrow> s | None \<Rightarrow> naive_now local_zone t_fetch)
                      < naive_now local_zone t_fetch
                      \<and> 0 < (naive_now local_zone t_fetch
                              - (case sched of Some s \<Rightarrow> s | None \<Rightarrow> naive_now local_zone t_fetch))
                             div 60000000
                   then [Delay_notice
                          ((naive_now local_zone t_fetch
                            - (case sched of Some s \<Rightarrow> s | None \<Rightarrow> naive_now local_zone t_fetch))
                           div 60000000)]
                   else [])))"
proof (intro conjI allI impI)
  show "fetch_and_notify_user F zones local_zone scraper accepts
       (snd (deactivate_user utcnow uid db)) t_entry t_fetch sched j
     = fetch_and_notify_user F zones local_zone scraper accepts db t_entry t_fetch sched j"
    by (rule fetch_reads_credentials_only)
       (simp_all add: credentials_after_deactivate settings_after_deactivate)
  show "fetch_and_notify_user F zones local_zone scraper accepts db t_entry t_fetch sched j = []"
    if "get_user F db (telegram_id (job_data j)) = None"
    using that by (simp add: fetch_and_notify_user_def)
  show "get_user F db (telegram_id (job_data j)) = None"
    if "map_of (users db) (telegram_id (job_data j)) = None"
    using that by (simp add: get_user_def)
  show "get_user F db (telegram_id (job_data j)) = None"
    if "map_of (users db) (telegram_id (job_data j)) = Some row
        \<and> decrypt_row F db (telegram_id (job_data j)) row = None" for row
    using that by (simp add: get_user_def)
  show "fetch_and_notify_user F zones local_zone scraper accepts db t_entry t_fetch sched j = []"
    if "5 \<le> weekday (naive_now local_zone t_entry)"
    using that by (simp add: fetch_and_notify_user_def Let_def split: option.splits)
  fix u tz messages
  assume "get_user F db (telegram_id (job_data j)) = Some u
         \<and> weekday (naive_now local_zone t_entry) < 5
         \<and> zones (case get_user_settings db (telegram_id (job_data j)) of
                     Some s \<Rightarrow> timezone s | None \<Rightarrow> ''America/Chicago'') = Some tz
         \<and> scraper (aspen_username u) (aspen_password u) (datetime_now tz t_fetch) = Some messages"
  then show "fetch_and_notify_user F zones local_zone scraper accepts db t_entry t_fetch sched j
           = deliverable_prefix accepts (telegram_id (job_data j))
               (map Grades messages
                @ (if (case sched of Some s \<Rightarrow> s | None \<Rightarrow> naive_now local_zone t_fetch)
                      < naive_now local_zone t_fetch
                      \<and> 0 < (naive_now local_zone t_fetch
                              - (case sched of Some s \<Rightarrow> s | None \<Rightarrow> naive_now local_zone t_fetch))
                             div 60000000
                   then [Delay_notice
                          ((naive_now local_zone t_fetch
                            - (case sched of Some s \<Rightarrow> s | None \<Rightarrow> naive_now local_zone t_fetch))
                           div 60000000)]
                   else []))"
    by (simp add: fetch_and_notify_user_def Let_def)
qed

theorem firing_ignores_is_active_witness:
  "fst (deactivate_user 2000 42 registered_db)
   \<and> map_option is_active (get_user tag_fernet deactivated_db 42) = Some False
   \<and> get_all_active_users tag_fernet deactivated_db = []
   \<and> weekday (naive_now utc_zone 1709326807000000) = 4
   \<and> fetch_and_notify_user tag_fernet zones_2024 utc_zone grades_stub (\<lambda>m. True)
       deactivated_db 1709326807000000 1709326852000000 None alice_job
       = [(42, Grades ''Math: A'')]
   \<and> map_of (users empty_db) 42 = None
   \<and> fetch_and_notify_user tag_fernet zones_2024 utc_zone grades_stub (\<lambda>m. True)
       empty_db 1709326807000000 1709326852000000 None alice_job = []"
proof -
  have d1: "fst (deactivate_user 2000 42 registered_db)"
    by (simp add: deactivate_user_def registered_row)
  have d2: "map_option is_active (get_user tag_fernet deactivated_db 42) = Some False"
    by (simp add: deactivated_db_def deactivate_user_def registered_row get_user_def update_conv'
        decrypt_row_def decrypt_def registered_key tag_fernet_def)
  have d3: "get_all_active_users tag_fernet deactivated_db = []"
    by (simp add: deactivated_db_def deactivate_user_def registered_row registered_users
        get_all_active_users_def)
  have fri: "weekday (naive_now utc_zone 1709326807000000) = 4"
    by (simp add: weekday_def date_of_def naive_now_def utc_zone_def usec_per_day_def)
  have none: "map_of (users empty_db) 42 = None"
    by (simp add: empty_db_def)
  from firing_ignores_is_active [of tag_fernet zones_2024 utc_zone grades_stub "\<lambda>m. True"
      2000 42 registered_db 1709326807000000 1709326852000000 None alice_job]
    firing_ignores_is_active [of tag_fernet zones_2024 utc_zone grades_stub "\<lambda>m. True"
      2000 42 empty_db 1709326807000000 1709326852000000 None alice_job]
  show ?thesis
    using d1 d2 d3 fri none by (simp add: friday_run deactivated_db_def alice_job_data alice_id)
qed

text \<open>
  C9, as the specification states it, fails in its "only": a firing is also ended for an
  account whose row is present. Under a replaced key the row of account 42 does not
  decrypt, \<^verbatim>\<open>get_user\<close> returns nothing and the Friday firing sends nothing; and on a
  Saturday of the process clock the firing for the present, decryptable account sends
  nothing either.
\<close>

theorem present_account_aborted_counterexample:
  "map_of (users rekeyed_db) 42 \<noteq> None
   \<and> map_option col_is_active (map_of (users rekeyed_db) 42) = Some True
   \<and> weekday (naive_now utc_zone 1709326807000000) = 4
   \<and> fetch_and_notify_user tag_fernet zones_2024 utc_zone grades_stub (\<lambda>m. True)
       rekeyed_db 1709326807000000 1709326852000000 None alice_job = []
   \<and> map_of (users registered_db) 42 \<noteq> None
   \<and> weekday (naive_now utc_zone 1709413207000000) = 5
   \<and> fetch_and_notify_user tag_fernet zones_2024 utc_zone grades_stub (\<lambda>m. True)
       registered_db 1709413207000000 1709413252000000 None alice_job = []"
proof -
  have "get_user tag_fernet rekeyed_db 42 = None"
    by (simp add: rekeyed_db_def get_user_def registered_row decrypt_row_def decrypt_def
        tag_fernet_def)
  then have "fetch_and_notify_user tag_fernet zones_2024 utc_zone grades_stub (\<lambda>m. True)
       rekeyed_db 1709326807000000 1709326852000000 None alice_job = []"
    by (simp add: fetch_and_notify_user_def alice_job_data alice_id)
  moreover have "weekday (naive_now utc_zone 1709326807000000) = 4"
    "weekday (naive_now utc_zone 1709413207000000) = 5"
    by (simp_all add: weekday_def date_of_def naive_now_def utc_zone_def usec_per_day_def)
  moreover have "fetch_and_notify_user tag_fernet zones_2024 utc_zone grades_stub (\<lambda>m. True)
       registered_db 1709413207000000 1709413252000000 None alice_job = []"
    by (simp add: fetch_and_notify_user_def alice_job_data alice_id registered_user
        weekday_def date_of_def naive_now_def utc_zone_def usec_per_day_def)
  ultimately show ?thesis
    by (simp add: rekeyed_db_def registered_row)
qed

end
